theory Spec2Isabelle
  imports Main "HOL-Library.Word"
begin

section \<open>Secure Vault (script.js): values, platform and world\<close>

text \<open>
  The script keeps one global object \<open>vault\<close>, reads and writes \<open>localStorage\<close> and a
  handful of DOM nodes, and calls the browser for everything cryptographic. The model
  threads one record, the world, through every function of the script. The browser's own
  functions (Web Crypto, TextEncoder, base64, JSON) are not part of the script: they are
  the fields of a record \<open>platform\<close> that every function takes as its first argument.

  A JavaScript string is modelled as \<open>string\<close>; its characters are those below 256, which
  is also exactly the range of a binary string as \<open>btoa\<close> and \<open>atob\<close> use it.
\<close>

type_synonym byte = "8 word"

text \<open>
  The values \<open>JSON.parse\<close> can return. \<open>vault.entries\<close> holds whatever was parsed, so the
  field has this type and not a list of entries. The payload of a number is kept as an
  integer; the script never computes with numbers, it only compares a length with 0.
\<close>

datatype json =
    JNull
  | JBool bool
  | JNum int
  | JStr string
  | JArr "json list"
  | JObj "(string \<times> json) list"

text \<open>The exceptions that can be thrown while the script runs.\<close>

datatype error = TypeError | OperationError | InvalidCharacterError | SyntaxError | RangeError

text \<open>
  The browser functions the script calls:
  \<^item> \<open>utf8_encode\<close>, \<open>utf8_decode\<close>: \<open>new TextEncoder().encode\<close>, \<open>new TextDecoder().decode\<close>;
  \<^item> \<open>btoa\<close>, \<open>atob\<close>: base64 of a binary string; \<open>atob\<close> throws on invalid input;
  \<open>btoa\<close> throws only on characters above 255, which \<open>string\<close> does not have;
  \<^item> \<open>pbkdf2\<close>: \<open>importKey\<close> of the raw password bytes followed by \<open>deriveKey\<close> with the
  given salt and iteration count, hash SHA-256, target AES-GCM 256;
  \<^item> \<open>aes_gcm_encrypt key iv data\<close>, \<open>aes_gcm_decrypt key iv data\<close>: \<open>crypto.subtle\<close>
  with \<open>{name: "AES-GCM", iv}\<close>; decryption rejects (\<open>None\<close>) when the tag does not verify;
  \<^item> \<open>json_stringify\<close>, \<open>json_parse\<close>: \<open>JSON.parse\<close> throws a SyntaxError (\<open>None\<close>) on
  text that is not JSON;
  \<^item> \<open>uuid_text\<close>: the textual form \<open>crypto.randomUUID\<close> gives to 16 random bytes;
  \<^item> \<open>argument_limit\<close>: the largest number of arguments the engine accepts in one call.
  Engines differ (65536 in JavaScriptCore, about 125000 in V8).
\<close>

record 'k platform =
  utf8_encode :: "string \<Rightarrow> byte list"
  utf8_decode :: "byte list \<Rightarrow> string"
  btoa :: "string \<Rightarrow> string"
  atob :: "string \<Rightarrow> string option"
  pbkdf2 :: "byte list \<Rightarrow> byte list \<Rightarrow> nat \<Rightarrow> 'k"
  aes_gcm_encrypt :: "'k \<Rightarrow> byte list \<Rightarrow> byte list \<Rightarrow> byte list"
  aes_gcm_decrypt :: "'k \<Rightarrow> byte list \<Rightarrow> byte list \<Rightarrow> byte list option"
  json_stringify :: "json \<Rightarrow> string"
  json_parse :: "string \<Rightarrow> json option"
  uuid_text :: "byte list \<Rightarrow> string"
  argument_limit :: nat

text \<open>The two sections of the page carry the class \<open>visible\<close> or \<open>hidden\<close>.\<close>

datatype visibility = Visible | Hidden

text \<open>
  The node \<open>entries-list\<close>: either a text, or the list of rendered articles, each with the
  three values destructured from an element of \<open>vault.entries\<close> (\<open>None\<close> is \<open>undefined\<close>).
\<close>

datatype view =
    TextContent string
  | Children "(json option \<times> json option \<times> json option) list"

text \<open>
  The world:
  \<^item> \<open>entries\<close>, \<open>cryptoKey\<close>, \<open>salt\<close>: the fields of the global \<open>vault\<close>;
  \<^item> \<open>storage\<close>: \<open>localStorage\<close>;
  \<^item> \<open>entropy\<close>, \<open>drawn\<close>: the bytes \<open>crypto.getRandomValues\<close> will deliver, and how
  many of them have been delivered so far;
  \<^item> the values of the three input fields, the two error nodes, the classes of the two
  sections, the node \<open>entries-list\<close>, and what \<open>console.error\<close> has printed.
\<close>

record 'k world =
  entries :: json
  cryptoKey :: "'k option"
  salt :: "byte list option"
  storage :: "string \<Rightarrow> string option"
  entropy :: "nat \<Rightarrow> byte"
  drawn :: nat
  master_password :: string
  entry_title :: string
  entry_content :: string
  login_error :: string
  entry_error :: string
  login_section :: visibility
  vault_section :: visibility
  entries_list :: view
  console :: "(string \<times> error) list"

section \<open>Constants and utilities\<close>

definition STORAGE_KEY :: string where
  "STORAGE_KEY = ''secureVault:data''"

definition SALT_KEY :: string where
  "SALT_KEY = ''secureVault:salt''"

definition IV_LENGTH :: nat where
  "IV_LENGTH = 12"

definition encodeUTF8 :: "'k platform \<Rightarrow> string \<Rightarrow> byte list" where
  "encodeUTF8 P str = utf8_encode P str"

definition decodeUTF8 :: "'k platform \<Rightarrow> byte list \<Rightarrow> string" where
  "decodeUTF8 P buffer = utf8_decode P buffer"

text \<open>\<open>String.fromCharCode\<close> applied to the bytes of a buffer: one character per byte.\<close>

definition fromCharCode :: "byte list \<Rightarrow> string" where
  "fromCharCode buffer = map (\<lambda>b. char_of (unat b)) buffer"

text \<open>
  \<open>String.fromCharCode(...buffer)\<close>: the spread passes every byte as an argument of its
  own, and the engine throws a RangeError when a call has more arguments than it accepts.
  A call with the 16 bytes of a salt, or fewer, is accepted by every engine.
\<close>

definition fromCharCode_spread :: "'k platform \<Rightarrow> byte list \<Rightarrow> error + string" where
  "fromCharCode_spread P buffer =
     (if length buffer \<le> 16 \<or> length buffer \<le> argument_limit P
      then Inr (fromCharCode buffer)
      else Inl RangeError)"

text \<open>\<open>Uint8Array.from(s, c => c.charCodeAt(0))\<close>: one byte per character.\<close>

definition charCodes :: "string \<Rightarrow> byte list" where
  "charCodes s = map (\<lambda>c. of_nat (of_char c)) s"

text \<open>
  \<open>crypto.getRandomValues(new Uint8Array(length))\<close>: the next \<open>length\<close> bytes of the
  entropy, which are then used up.
\<close>

definition getRandomBytes :: "nat \<Rightarrow> 'k world \<Rightarrow> byte list \<times> 'k world" where
  "getRandomBytes n w =
     (map (entropy w) [drawn w ..< drawn w + n], w\<lparr>drawn := drawn w + n\<rparr>)"

text \<open>\<open>crypto.randomUUID()\<close>: a version 4 identifier, made of 16 random bytes.\<close>

definition randomUUID :: "'k platform \<Rightarrow> 'k world \<Rightarrow> string \<times> 'k world" where
  "randomUUID P w = (let (bs, w') = getRandomBytes 16 w in (uuid_text P bs, w'))"

text \<open>
  \<open>String.prototype.trim\<close> removes white space and line terminators from both ends. Of
  the characters a \<open>string\<close> has, these are tab, line feed, vertical tab, form feed,
  carriage return, space and no-break space.
\<close>

definition is_white_space :: "char \<Rightarrow> bool" where
  "is_white_space c = ((of_char c :: nat) \<in> {9, 10, 11, 12, 13, 32, 160})"

definition trim :: "string \<Rightarrow> string" where
  "trim s = rev (dropWhile is_white_space (rev (dropWhile is_white_space s)))"

text \<open>
  Reading a property of a value that is neither \<open>null\<close> nor \<open>undefined\<close>, for the
  property names the script uses (\<open>id\<close>, \<open>title\<close>, \<open>content\<close>, \<open>length\<close>): an object has
  the properties it was parsed with, a string and an array have \<open>length\<close>.
\<close>

fun getProp :: "json \<Rightarrow> string \<Rightarrow> json option" where
  "getProp (JObj kvs) k = map_of kvs k"
| "getProp (JStr s) k = (if k = ''length'' then Some (JNum (int (length s))) else None)"
| "getProp (JArr xs) k = (if k = ''length'' then Some (JNum (int (length xs))) else None)"
| "getProp _ k = None"

section \<open>Key derivation and the cipher\<close>

definition deriveKey :: "'k platform \<Rightarrow> string \<Rightarrow> byte list \<Rightarrow> 'k" where
  "deriveKey P password s = pbkdf2 P (encodeUTF8 P password) s 250000"

text \<open>
  \<open>encrypt(key, data)\<close>. The nonce is drawn first; \<open>crypto.subtle.encrypt\<close> rejects with a
  TypeError when the key is \<open>null\<close>. The result is base64 of nonce followed by ciphertext,
  unless the spread of the buffer throws.
\<close>

definition encrypt ::
  "'k platform \<Rightarrow> 'k option \<Rightarrow> string \<Rightarrow> 'k world \<Rightarrow> (error + string) \<times> 'k world" where
  "encrypt P key data w =
     (let (iv, w') = getRandomBytes IV_LENGTH w;
          encodedData = encodeUTF8 P data
      in case key of
           None \<Rightarrow> (Inl TypeError, w')
         | Some k \<Rightarrow>
             (let encrypted = aes_gcm_encrypt P k iv encodedData;
                  buffer = iv @ encrypted
              in case fromCharCode_spread P buffer of
                   Inl e \<Rightarrow> (Inl e, w')
                 | Inr bin \<Rightarrow> (Inr (btoa P bin), w')))"

text \<open>
  \<open>decrypt(key, data)\<close>: \<open>atob\<close> may throw; the first \<open>IV_LENGTH\<close> bytes are the nonce, the
  rest is the ciphertext; \<open>crypto.subtle.decrypt\<close> rejects on a \<open>null\<close> key (TypeError) or
  when the tag does not verify (OperationError).
\<close>

definition decrypt :: "'k platform \<Rightarrow> 'k option \<Rightarrow> string \<Rightarrow> error + string" where
  "decrypt P key data =
     (case atob P data of
        None \<Rightarrow> Inl InvalidCharacterError
      | Some bin \<Rightarrow>
          (let buffer = charCodes bin;
               iv = take IV_LENGTH buffer;
               ciphertext = drop IV_LENGTH buffer
           in case key of
                None \<Rightarrow> Inl TypeError
              | Some k \<Rightarrow>
                  (case aes_gcm_decrypt P k iv ciphertext of
                     None \<Rightarrow> Inl OperationError
                   | Some decrypted \<Rightarrow> Inr (decodeUTF8 P decrypted))))"

section \<open>Persistence\<close>

definition saveVault :: "string \<Rightarrow> 'k world \<Rightarrow> 'k world" where
  "saveVault encryptedData w = w\<lparr>storage := (storage w)(STORAGE_KEY \<mapsto> encryptedData)\<rparr>"

definition loadVault :: "'k world \<Rightarrow> string option" where
  "loadVault w = storage w STORAGE_KEY"

definition saveSalt :: "'k platform \<Rightarrow> byte list \<Rightarrow> 'k world \<Rightarrow> error + 'k world" where
  "saveSalt P s w =
     (case fromCharCode_spread P s of
        Inl e \<Rightarrow> Inl e
      | Inr bin \<Rightarrow> Inr (w\<lparr>storage := (storage w)(SALT_KEY \<mapsto> btoa P bin)\<rparr>))"

text \<open>\<open>loadSalt\<close>: \<open>!b64\<close> holds for \<open>null\<close> and for the empty string.\<close>

definition loadSalt :: "'k platform \<Rightarrow> 'k world \<Rightarrow> error + byte list option" where
  "loadSalt P w =
     (case storage w SALT_KEY of
        None \<Rightarrow> Inr None
      | Some b64 \<Rightarrow>
          if b64 = [] then Inr None
          else (case atob P b64 of
                  None \<Rightarrow> Inl InvalidCharacterError
                | Some bin \<Rightarrow> Inr (Some (charCodes bin))))"

section \<open>The page\<close>

definition showLoginError :: "string \<Rightarrow> 'k world \<Rightarrow> 'k world" where
  "showLoginError message w = w\<lparr>login_error := message\<rparr>"

definition hideLoginError :: "'k world \<Rightarrow> 'k world" where
  "hideLoginError w = showLoginError [] w"

definition showEntryError :: "string \<Rightarrow> 'k world \<Rightarrow> 'k world" where
  "showEntryError message w = w\<lparr>entry_error := message\<rparr>"

definition hideEntryError :: "'k world \<Rightarrow> 'k world" where
  "hideEntryError w = showEntryError [] w"

definition clearEntryForm :: "'k world \<Rightarrow> 'k world" where
  "clearEntryForm w = hideEntryError (w\<lparr>entry_title := [], entry_content := []\<rparr>)"

text \<open>\<open>classList.replace(a, b)\<close> changes the class only when it is \<open>a\<close>.\<close>

definition classList_replace :: "visibility \<Rightarrow> visibility \<Rightarrow> visibility \<Rightarrow> visibility" where
  "classList_replace a b c = (if c = a then b else c)"

definition showVaultSection :: "'k world \<Rightarrow> 'k world" where
  "showVaultSection w =
     w\<lparr>login_section := classList_replace Visible Hidden (login_section w),
       vault_section := classList_replace Hidden Visible (vault_section w)\<rparr>"

definition showLoginSection :: "'k world \<Rightarrow> 'k world" where
  "showLoginSection w =
     w\<lparr>vault_section := classList_replace Visible Hidden (vault_section w),
       login_section := classList_replace Hidden Visible (login_section w)\<rparr>"

text \<open>
  The body of \<open>forEach\<close> in \<open>renderEntries\<close>: destructuring \<open>{id, title, content}\<close> throws
  on \<open>null\<close>; the articles appended before the throw stay in the node.
\<close>

fun render_each ::
  "json list \<Rightarrow> (json option \<times> json option \<times> json option) list \<Rightarrow>
   (error + unit) \<times> (json option \<times> json option \<times> json option) list" where
  "render_each [] acc = (Inr (), acc)"
| "render_each (JNull # es) acc = (Inl TypeError, acc)"
| "render_each (e # es) acc =
     render_each es (acc @ [(getProp e ''id'', getProp e ''title'', getProp e ''content'')])"

text \<open>
  \<open>renderEntries\<close>. The node is emptied first. \<open>vault.entries.length\<close> throws on \<open>null\<close>;
  when the length is 0 the text is shown; otherwise \<open>forEach\<close> is called, which only an
  array has.
\<close>

definition renderEntries :: "'k world \<Rightarrow> (error + unit) \<times> 'k world" where
  "renderEntries w =
     (let w0 = w\<lparr>entries_list := Children []\<rparr>
      in case entries w0 of
           JNull \<Rightarrow> (Inl TypeError, w0)
         | v \<Rightarrow>
             if getProp v ''length'' = Some (JNum 0)
             then (Inr (), w0\<lparr>entries_list := TextContent ''Your vault is empty.''\<rparr>)
             else (case v of
                     JArr xs \<Rightarrow>
                       (let (r, items) = render_each xs []
                        in (r, w0\<lparr>entries_list := Children items\<rparr>))
                   | _ \<Rightarrow> (Inl TypeError, w0)))"

section \<open>Saving and loading the vault\<close>

definition saveVaultData :: "'k platform \<Rightarrow> 'k world \<Rightarrow> (error + unit) \<times> 'k world" where
  "saveVaultData P w =
     (let plaintext = json_stringify P (entries w)
      in case encrypt P (cryptoKey w) plaintext w of
           (Inl e, w') \<Rightarrow> (Inl e, w')
         | (Inr encryptedData, w') \<Rightarrow> (Inr (), saveVault encryptedData w'))"

text \<open>
  \<open>loadVaultData\<close>: a missing or empty stored value is an empty vault. Whatever
  \<open>decrypt\<close> or \<open>JSON.parse\<close> throws is caught, printed, and turned into \<open>false\<close>.
\<close>

definition loadVaultData :: "'k platform \<Rightarrow> 'k world \<Rightarrow> bool \<times> 'k world" where
  "loadVaultData P w =
     (case loadVault w of
        None \<Rightarrow> (True, w\<lparr>entries := JArr []\<rparr>)
      | Some encryptedData \<Rightarrow>
          if encryptedData = [] then (True, w\<lparr>entries := JArr []\<rparr>)
          else (case decrypt P (cryptoKey w) encryptedData of
                  Inl err \<Rightarrow>
                    (False, w\<lparr>console := console w @ [(''Failed to decrypt vault:'', err)]\<rparr>)
                | Inr decrypted \<Rightarrow>
                    (case json_parse P decrypted of
                       None \<Rightarrow>
                         (False, w\<lparr>console := console w @
                                     [(''Failed to decrypt vault:'', SyntaxError)]\<rparr>)
                     | Some v \<Rightarrow> (True, w\<lparr>entries := v\<rparr>))))"

section \<open>Entries\<close>

text \<open>
  \<open>addEntry(title, content)\<close>. The guard tests the arguments as given. \<open>push\<close> exists on
  arrays only. The promise of \<open>saveVaultData\<close> is followed to its end; an exception that
  escapes (thrown, or a rejection nobody handles) is the \<open>Inl\<close> of the result.
\<close>

definition addEntry ::
  "'k platform \<Rightarrow> string \<Rightarrow> string \<Rightarrow> 'k world \<Rightarrow> (error + unit) \<times> 'k world" where
  "addEntry P title content w =
     (if title = [] \<or> content = []
      then (Inr (), showEntryError ''Title and content cannot be empty.'' w)
      else
        (let (uuid, w1) = randomUUID P w;
             newEntry = JObj [(''id'', JStr uuid),
                              (''title'', JStr (trim title)),
                              (''content'', JStr (trim content))]
         in case entries w1 of
              JArr xs \<Rightarrow>
                (case saveVaultData P (w1\<lparr>entries := JArr (xs @ [newEntry])\<rparr>) of
                   (Inl e, w2) \<Rightarrow> (Inl e, w2)
                 | (Inr u, w2) \<Rightarrow>
                     (case renderEntries w2 of
                        (Inl e, w3) \<Rightarrow> (Inl e, w3)
                      | (Inr u', w3) \<Rightarrow> (Inr (), clearEntryForm w3)))
            | _ \<Rightarrow> (Inl TypeError, w1)))"

text \<open>
  The callback of \<open>filter\<close> in \<open>deleteEntry\<close>, \<open>e => e.id !== id\<close>, run over the array:
  reading \<open>id\<close> of \<open>null\<close> throws; an element is dropped when its \<open>id\<close> is the string \<open>id\<close>.
\<close>

fun filter_id :: "string \<Rightarrow> json list \<Rightarrow> error + json list" where
  "filter_id i [] = Inr []"
| "filter_id i (JNull # es) = Inl TypeError"
| "filter_id i (e # es) =
     (case filter_id i es of
        Inl err \<Rightarrow> Inl err
      | Inr rest \<Rightarrow> Inr (if getProp e ''id'' \<noteq> Some (JStr i) then e # rest else rest))"

definition deleteEntry ::
  "'k platform \<Rightarrow> string \<Rightarrow> 'k world \<Rightarrow> (error + unit) \<times> 'k world" where
  "deleteEntry P i w =
     (case entries w of
        JArr xs \<Rightarrow>
          (case filter_id i xs of
             Inl e \<Rightarrow> (Inl e, w)
           | Inr ys \<Rightarrow>
               (case saveVaultData P (w\<lparr>entries := JArr ys\<rparr>) of
                  (Inl e, w1) \<Rightarrow> (Inl e, w1)
                | (Inr u, w1) \<Rightarrow> renderEntries w1))
      | _ \<Rightarrow> (Inl TypeError, w))"

section \<open>The handlers\<close>

text \<open>
  \<open>handleUnlock\<close>. Everything after the test of the password runs inside \<open>try\<close>; the
  \<open>catch\<close> shows its own message and changes nothing else.
\<close>

definition handleUnlock :: "'k platform \<Rightarrow> 'k world \<Rightarrow> 'k world" where
  "handleUnlock P w =
     (let w0 = hideLoginError w;
          password = master_password w0
      in if password = []
         then showLoginError ''Please enter your master password.'' w0
         else
           (case loadSalt P w0 of
              Inl err \<Rightarrow>
                showLoginError ''An error occurred during unlock.''
                  (w0\<lparr>console := console w0 @ [(''Unlock error:'', err)]\<rparr>)
            | Inr loaded \<Rightarrow>
                (case (case loaded of
                         None \<Rightarrow>
                           (let (fresh, w') = getRandomBytes 16 w0
                            in case saveSalt P fresh w' of
                                 Inl err \<Rightarrow> Inl (err, w')
                               | Inr w'' \<Rightarrow> Inr (fresh, w''))
                       | Some stored \<Rightarrow> Inr (stored, w0)) of
                   Inl (err, w') \<Rightarrow>
                     showLoginError ''An error occurred during unlock.''
                       (w'\<lparr>console := console w' @ [(''Unlock error:'', err)]\<rparr>)
                 | Inr (s, w1) \<Rightarrow>
                     (let w2 = w1\<lparr>salt := Some s\<rparr>;
                          w3 = w2\<lparr>cryptoKey := Some (deriveKey P password s)\<rparr>;
                          (success, w4) = loadVaultData P w3
                      in if \<not> success
                         then (showLoginError ''Invalid password or corrupted vault.'' w4)
                                \<lparr>cryptoKey := None\<rparr>
                         else
                           (let w5 = w4\<lparr>master_password := []\<rparr>;
                                w6 = showVaultSection w5
                            in case renderEntries w6 of
                                 (Inl err, w7) \<Rightarrow>
                                   showLoginError ''An error occurred during unlock.''
                                     (w7\<lparr>console := console w7 @ [(''Unlock error:'', err)]\<rparr>)
                               | (Inr u, w7) \<Rightarrow> w7)))))"

definition handleLogout :: "'k world \<Rightarrow> 'k world" where
  "handleLogout w =
     showLoginSection
       ((hideLoginError (hideEntryError (w\<lparr>cryptoKey := None, entries := JArr []\<rparr>)))
          \<lparr>master_password := []\<rparr>)"

definition handleAddEntry :: "'k platform \<Rightarrow> 'k world \<Rightarrow> (error + unit) \<times> 'k world" where
  "handleAddEntry P w =
     (let w0 = hideEntryError w;
          title = trim (entry_title w0);
          content = trim (entry_content w0)
      in if title = [] \<or> content = []
         then (Inr (), showEntryError ''Both title and content are required.'' w0)
         else addEntry P title content w0)"

section \<open>Entries as the script creates them, and the user's actions\<close>

text \<open>
  An entry is an object with the properties \<open>id\<close>, \<open>title\<close>, \<open>content\<close>, in this order, all
  strings: the shape of the object literal in \<open>addEntry\<close>.
\<close>

record entry =
  eid :: string
  etitle :: string
  econtent :: string

definition to_json :: "entry \<Rightarrow> json" where
  "to_json e = JObj [(''id'', JStr (eid e)),
                     (''title'', JStr (etitle e)),
                     (''content'', JStr (econtent e))]"

text \<open>A string that neither starts nor ends with white space.\<close>

definition trimmed :: "string \<Rightarrow> bool" where
  "trimmed s = (s = [] \<or> (\<not> is_white_space (hd s) \<and> \<not> is_white_space (last s)))"

text \<open>
  What \<open>init\<close> wires to the page: the user types a password and presses the unlock
  button, presses the logout button, fills the form and presses the add button, or presses
  the delete button of an entry. A run is a sequence of such actions.
\<close>

datatype action =
    Unlock string
  | Logout
  | AddEntry string string
  | DeleteEntry string

fun perform :: "'k platform \<Rightarrow> action \<Rightarrow> 'k world \<Rightarrow> 'k world" where
  "perform P (Unlock password) w = handleUnlock P (w\<lparr>master_password := password\<rparr>)"
| "perform P Logout w = handleLogout w"
| "perform P (AddEntry title content) w =
     snd (handleAddEntry P (w\<lparr>entry_title := title, entry_content := content\<rparr>))"
| "perform P (DeleteEntry i) w = snd (deleteEntry P i w)"

definition run :: "'k platform \<Rightarrow> action list \<Rightarrow> 'k world \<Rightarrow> 'k world" where
  "run P as w = fold (perform P) as w"

section \<open>What is assumed of the browser\<close>

text \<open>
  The contracts of the browser functions, as far as the properties below depend on them:
  each decoder returns what its encoder was given. They hold of every browser.
\<close>

definition base64_ok :: "'k platform \<Rightarrow> bool" where
  "base64_ok P = ((\<forall>s. atob P (btoa P s) = Some s) \<and> btoa P [] = [])"

definition utf8_ok :: "'k platform \<Rightarrow> bool" where
  "utf8_ok P = (\<forall>s. utf8_decode P (utf8_encode P s) = s)"

definition aes_gcm_ok :: "'k platform \<Rightarrow> bool" where
  "aes_gcm_ok P = (\<forall>k iv m. aes_gcm_decrypt P k iv (aes_gcm_encrypt P k iv m) = Some m)"

section \<open>A small platform to run the script on\<close>

text \<open>
  A stand-in for the browser on which the functions above can be evaluated. Keys are byte
  strings. Key derivation keeps what HMAC, and with it PBKDF2, does to a password shorter
  than its block of 64 bytes: the password is filled up with zero bytes. Sealing puts the
  key in front of the data, byte by byte behind a marker, and opening checks it. Text is
  one byte per character, base64 is the identity. The serialiser writes JSON without
  escapes; the parser knows the three texts used below. A call accepts 125000 arguments.
\<close>

definition hmac_key :: "byte list \<Rightarrow> byte list" where
  "hmac_key password = password @ replicate (64 - length password) 0"

fun key_frame :: "byte list \<Rightarrow> byte list" where
  "key_frame [] = [0]"
| "key_frame (b # bs) = 1 # b # key_frame bs"

fun key_unframe :: "byte list \<Rightarrow> byte list \<Rightarrow> byte list option" where
  "key_unframe [] (c # cs) = (if c = 0 then Some cs else None)"
| "key_unframe (b # bs) (c # d # cs) = (if c = 1 \<and> d = b then key_unframe bs cs else None)"
| "key_unframe k cs = None"

fun digits :: "nat \<Rightarrow> string" where
  "digits n = (if n < 10 then [char_of (48 + n)]
               else digits (n div 10) @ [char_of (48 + n mod 10)])"

fun joined :: "string list \<Rightarrow> string" where
  "joined [] = []"
| "joined [x] = x"
| "joined (x # y # ys) = x @ '','' @ joined (y # ys)"

fun sample_stringify :: "json \<Rightarrow> string" where
  "sample_stringify JNull = ''null''"
| "sample_stringify (JBool b) = (if b then ''true'' else ''false'')"
| "sample_stringify (JNum n) = (if n < 0 then ''-'' @ digits (nat (- n)) else digits (nat n))"
| "sample_stringify (JStr s) = [CHR 0x22] @ s @ [CHR 0x22]"
| "sample_stringify (JArr xs) = ''['' @ joined (map sample_stringify xs) @ '']''"
| "sample_stringify (JObj kvs) =
     ''{'' @ joined (map (\<lambda>kv. [CHR 0x22] @ fst kv @ [CHR 0x22] @ '':'' @
                                 sample_stringify (snd kv)) kvs) @ ''}''"

definition sample_entries :: json where
  "sample_entries = JArr [to_json \<lparr>eid = ''1'', etitle = ''Note'', econtent = ''secret''\<rparr>]"

definition sample_parse :: "string \<Rightarrow> json option" where
  "sample_parse s =
     (if s = sample_stringify sample_entries then Some sample_entries
      else if s = ''[]'' then Some (JArr [])
      else if s = ''null'' then Some JNull
      else None)"

definition sample :: "(byte list) platform" where
  "sample =
     \<lparr>utf8_encode = charCodes,
      utf8_decode = fromCharCode,
      btoa = (\<lambda>s. s),
      atob = Some,
      pbkdf2 = (\<lambda>password s n. s @ hmac_key password),
      aes_gcm_encrypt = (\<lambda>k iv m. key_frame k @ m),
      aes_gcm_decrypt = (\<lambda>k iv c. key_unframe k c),
      json_stringify = sample_stringify,
      json_parse = sample_parse,
      uuid_text = fromCharCode,
      argument_limit = 125000\<rparr>"

text \<open>The page as it is when the script starts, with nothing stored.\<close>

definition start :: "(byte list) world" where
  "start =
     \<lparr>entries = JArr [], cryptoKey = None, salt = None,
      storage = Map.empty,
      entropy = (\<lambda>n. of_nat n), drawn = 0,
      master_password = [], entry_title = [], entry_content = [],
      login_error = [], entry_error = [],
      login_section = Visible, vault_section = Hidden,
      entries_list = Children [], console = []\<rparr>"

text \<open>
  Worlds to evaluate on. \<open>open_vault\<close>: a session unlocked with the password
  \<open>orange123\<close> and the stored salt \<open>sample_salt\<close>, holding one entry. \<open>reopened\<close>: the
  same vault after saving and logging out, with a password typed in. \<open>sealed_vault t\<close>:
  a store whose envelope \<open>sealed_text t\<close> holds the text \<open>t\<close> sealed under the key
  \<open>[7]\<close>, with that key in the session. \<open>garbled_vault\<close>: a store with a salt and a
  stored value that is not an envelope, and the password typed in. \<open>null_store\<close>: a store
  with a salt and an envelope that holds the text \<open>null\<close> sealed under the key of the
  password \<open>orange123\<close>, and that password typed in. \<open>big_vault\<close>: the unlocked session
  holding one entry whose content has 200000 characters, and \<open>reopened_big\<close>: that vault
  after saving and logging out, with a password typed in. \<open>saved_vault\<close>: \<open>open_vault\<close>
  after saving, and \<open>saved_envelope\<close>: the envelope then stored. \<open>crowded_vault\<close>: the
  session after an entry with a content of 200000 characters was added to \<open>saved_vault\<close>,
  and \<open>added_entry\<close>: that entry. \<open>padded_password\<close>:
  the password \<open>orange123\<close> followed by the character with code 0.
\<close>

definition sample_salt :: "byte list" where
  "sample_salt = [0, 1, 2, 3, 4, 5, 6, 7, 8, 9, 10, 11, 12, 13, 14, 15]"

definition open_vault :: "(byte list) world" where
  "open_vault =
     start\<lparr>entries := sample_entries,
           cryptoKey := Some (deriveKey sample ''orange123'' sample_salt),
           salt := Some sample_salt,
           storage := [SALT_KEY \<mapsto> fromCharCode sample_salt],
           drawn := 16,
           login_section := Hidden, vault_section := Visible\<rparr>"

definition reopened :: "string \<Rightarrow> (byte list) world" where
  "reopened password =
     (handleLogout (snd (saveVaultData sample open_vault)))\<lparr>master_password := password\<rparr>"

definition sealed_text :: "string \<Rightarrow> string" where
  "sealed_text t =
     fromCharCode ([0, 1, 2, 3, 4, 5, 6, 7, 8, 9, 10, 11] @ [1, 7, 0] @ charCodes t)"

definition sealed_vault :: "string \<Rightarrow> (byte list) world" where
  "sealed_vault t = start\<lparr>cryptoKey := Some [7], storage := [STORAGE_KEY \<mapsto> sealed_text t]\<rparr>"

definition garbled_vault :: "(byte list) world" where
  "garbled_vault =
     start\<lparr>storage := [SALT_KEY \<mapsto> fromCharCode sample_salt, STORAGE_KEY \<mapsto> ''garbage''],
           master_password := ''orange123''\<rparr>"

definition null_envelope :: string where
  "null_envelope =
     fromCharCode ([0, 1, 2, 3, 4, 5, 6, 7, 8, 9, 10, 11] @
                   key_frame (sample_salt @ hmac_key (charCodes ''orange123'')) @
                   charCodes ''null'')"

definition null_store :: "(byte list) world" where
  "null_store =
     start\<lparr>storage := [SALT_KEY \<mapsto> fromCharCode sample_salt, STORAGE_KEY \<mapsto> null_envelope],
           master_password := ''orange123''\<rparr>"

definition saved_envelope :: string where
  "saved_envelope =
     btoa sample (fromCharCode
       (map (entropy open_vault) [drawn open_vault ..< drawn open_vault + 12] @
        aes_gcm_encrypt sample (deriveKey sample ''orange123'' sample_salt)
          (map (entropy open_vault) [drawn open_vault ..< drawn open_vault + 12])
          (utf8_encode sample (json_stringify sample sample_entries))))"

definition padded_password :: string where
  "padded_password = ''orange123'' @ [CHR 0x00]"

definition big_content :: string where
  "big_content = replicate 200000 CHR ''a''"

definition big_entry :: entry where
  "big_entry = \<lparr>eid = ''2'', etitle = ''Big'', econtent = big_content\<rparr>"

definition big_vault :: "(byte list) world" where
  "big_vault = open_vault\<lparr>entries := JArr [to_json big_entry]\<rparr>"

definition reopened_big :: "string \<Rightarrow> (byte list) world" where
  "reopened_big password =
     (handleLogout (snd (saveVaultData sample big_vault)))\<lparr>master_password := password\<rparr>"

definition saved_vault :: "(byte list) world" where
  "saved_vault = snd (saveVaultData sample open_vault)"

definition added_entry :: entry where
  "added_entry =
     \<lparr>eid = uuid_text sample (map (entropy saved_vault) [drawn saved_vault ..< drawn saved_vault + 16]),
      etitle = ''Big'', econtent = big_content\<rparr>"

definition crowded_vault :: "(byte list) world" where
  "crowded_vault = snd (addEntry sample ''Big'' big_content saved_vault)"

section \<open>Shorthand for the statements\<close>

text \<open>
  \<open>next_bytes w n\<close>: the \<open>n\<close> bytes the next call of \<open>getRandomBytes\<close> delivers in \<open>w\<close>.
  \<open>buffer_of P k iv text\<close>: the nonce followed by what AES-GCM makes of the UTF-8 bytes of
  \<open>text\<close> under \<open>k\<close> and the nonce. \<open>accepted P n\<close>: a call with \<open>n\<close> spread arguments does
  not throw.
\<close>

abbreviation next_bytes :: "'k world \<Rightarrow> nat \<Rightarrow> byte list" where
  "next_bytes w n \<equiv> map (entropy w) [drawn w ..< drawn w + n]"

abbreviation buffer_of :: "'k platform \<Rightarrow> 'k \<Rightarrow> byte list \<Rightarrow> string \<Rightarrow> byte list" where
  "buffer_of P k iv text \<equiv> iv @ aes_gcm_encrypt P k iv (utf8_encode P text)"

abbreviation accepted :: "'k platform \<Rightarrow> nat \<Rightarrow> bool" where
  "accepted P n \<equiv> n \<le> 16 \<or> n \<le> argument_limit P"

section \<open>Basic facts\<close>

lemmas page_defs =
  showLoginError_def hideLoginError_def showEntryError_def hideEntryError_def
  clearEntryForm_def showVaultSection_def showLoginSection_def classList_replace_def

lemma keys_differ: "SALT_KEY \<noteq> STORAGE_KEY"
  by (simp add: SALT_KEY_def STORAGE_KEY_def)

lemma byte_of_char_of: "of_nat (unat b mod 256) = (b :: byte)"
proof -
  have "unat b < 2 ^ LENGTH(8)" by (rule unsigned_less)
  then have "unat b < 256" by simp
  then show ?thesis by simp
qed

lemma charCodes_fromCharCode: "charCodes (fromCharCode bs) = bs"
  by (induction bs) (simp_all add: charCodes_def fromCharCode_def byte_of_char_of)

lemma fromCharCode_charCodes: "fromCharCode (charCodes s) = s"
  by (induction s) (simp_all add: charCodes_def fromCharCode_def unat_of_nat)

lemma btoa_nonempty:
  assumes "base64_ok P" "s \<noteq> []"
  shows "btoa P s \<noteq> []"
proof
  assume e: "btoa P s = []"
  from assms(1) have r: "\<And>x. atob P (btoa P x) = Some x" and z: "btoa P [] = []"
    by (simp_all add: base64_ok_def)
  from r [of s] e have "atob P [] = Some s" by simp
  moreover from r [of "[]"] z have "atob P [] = Some []" by simp
  ultimately show False using assms(2) by simp
qed

subsection \<open>Sealing and opening\<close>

lemma encrypt_accepted:
  assumes "accepted P (length (buffer_of P k (next_bytes w 12) data))"
  shows "encrypt P (Some k) data w =
     (Inr (btoa P (fromCharCode (buffer_of P k (next_bytes w 12) data))),
      w\<lparr>drawn := drawn w + 12\<rparr>)"
  using assms
  by (simp add: encrypt_def getRandomBytes_def Let_def IV_LENGTH_def encodeUTF8_def
      fromCharCode_spread_def)

lemma encrypt_refused:
  assumes "\<not> accepted P (length (buffer_of P k (next_bytes w 12) data))"
  shows "encrypt P (Some k) data w = (Inl RangeError, w\<lparr>drawn := drawn w + 12\<rparr>)"
  using assms
  by (simp add: encrypt_def getRandomBytes_def Let_def IV_LENGTH_def encodeUTF8_def
      fromCharCode_spread_def)

lemma decrypt_envelope:
  assumes "base64_ok P" and "length iv = 12"
  shows "decrypt P (Some k) (btoa P (fromCharCode (iv @ c))) =
           (case aes_gcm_decrypt P k iv c of
              None \<Rightarrow> Inl OperationError
            | Some d \<Rightarrow> Inr (utf8_decode P d))"
  using assms
  by (simp add: decrypt_def base64_ok_def charCodes_fromCharCode Let_def IV_LENGTH_def
      decodeUTF8_def split: option.splits)

lemma envelope_nonempty:
  assumes "base64_ok P" and "length iv = 12"
  shows "btoa P (fromCharCode (iv @ c)) \<noteq> []"
proof (rule btoa_nonempty [OF assms(1)])
  from assms(2) have "iv \<noteq> []" by auto
  then show "fromCharCode (iv @ c) \<noteq> []" by (simp add: fromCharCode_def)
qed

lemma saveVaultData_accepted:
  assumes "cryptoKey w = Some k"
    and "accepted P (length (buffer_of P k (next_bytes w 12) (json_stringify P (entries w))))"
  shows "saveVaultData P w =
     (Inr (),
      w\<lparr>drawn := drawn w + 12,
        storage := (storage w)(STORAGE_KEY \<mapsto>
          btoa P (fromCharCode
            (buffer_of P k (next_bytes w 12) (json_stringify P (entries w)))))\<rparr>)"
  using assms(1) by (simp add: saveVaultData_def encrypt_accepted [OF assms(2)] saveVault_def)

lemma saveVaultData_refused:
  assumes "cryptoKey w = Some k"
    and "\<not> accepted P (length (buffer_of P k (next_bytes w 12) (json_stringify P (entries w))))"
  shows "saveVaultData P w = (Inl RangeError, w\<lparr>drawn := drawn w + 12\<rparr>)"
  using assms(1) by (simp add: saveVaultData_def encrypt_refused [OF assms(2)])

lemma saveVaultData_saved:
  assumes "cryptoKey w = Some k" and "fst (saveVaultData P w) = Inr ()"
  shows "storage (snd (saveVaultData P w)) STORAGE_KEY =
     Some (btoa P (fromCharCode
       (buffer_of P k (next_bytes w 12) (json_stringify P (entries w)))))"
proof (cases "accepted P (length (buffer_of P k (next_bytes w 12) (json_stringify P (entries w))))")
  case True
  from saveVaultData_accepted [OF assms(1) True] show ?thesis by simp
next
  case False
  from saveVaultData_refused [OF assms(1) False] assms(2) show ?thesis by simp
qed

lemma saveVaultData_page:
  "vault_section (snd (saveVaultData P w)) = vault_section w"
  "login_section (snd (saveVaultData P w)) = login_section w"
  "entries (snd (saveVaultData P w)) = entries w"
  "cryptoKey (snd (saveVaultData P w)) = cryptoKey w"
  by (cases "cryptoKey w";
      simp add: saveVaultData_def encrypt_def saveVault_def getRandomBytes_def Let_def
        fromCharCode_spread_def)+

lemma saveSalt_16:
  assumes "length s = 16"
  shows "saveSalt P s w = Inr (w\<lparr>storage := (storage w)(SALT_KEY \<mapsto> btoa P (fromCharCode s))\<rparr>)"
  using assms by (simp add: saveSalt_def fromCharCode_spread_def)

subsection \<open>Rendering\<close>

lemma render_each_entries:
  "render_each (map to_json E) acc =
     (Inr (), acc @ map (\<lambda>e. (Some (JStr (eid e)), Some (JStr (etitle e)),
                               Some (JStr (econtent e)))) E)"
  by (induction E arbitrary: acc) (simp_all add: to_json_def)

lemma renderEntries_entries:
  assumes "entries w = JArr (map to_json E)"
  shows "renderEntries w =
     (Inr (), w\<lparr>entries_list :=
        (if E = [] then TextContent ''Your vault is empty.''
         else Children (map (\<lambda>e. (Some (JStr (eid e)), Some (JStr (etitle e)),
                                     Some (JStr (econtent e)))) E))\<rparr>)"
  using assms by (simp add: renderEntries_def Let_def render_each_entries)

lemma renderEntries_frame: "\<exists>v. snd (renderEntries w) = w\<lparr>entries_list := v\<rparr>"
  by (cases "entries w")
    (auto simp add: renderEntries_def Let_def split_beta)

lemma renderEntries_storage: "storage (snd (renderEntries w)) = storage w"
  using renderEntries_frame [of w] by auto

subsection \<open>What each function does to the store\<close>

lemma loadVaultData_storage: "storage (snd (loadVaultData P w)) = storage w"
  by (simp add: loadVaultData_def split: option.splits sum.splits)

lemma loadVaultData_fails:
  assumes "storage w STORAGE_KEY = Some env" and "env \<noteq> []"
    and "decrypt P (cryptoKey w) env = Inl e \<or>
         (\<exists>t. decrypt P (cryptoKey w) env = Inr t \<and> json_parse P t = None)"
  shows "\<exists>e'. loadVaultData P w =
           (False, w\<lparr>console := console w @ [(''Failed to decrypt vault:'', e')]\<rparr>)"
  using assms by (auto simp add: loadVaultData_def loadVault_def)

lemma saveVaultData_salt: "storage (snd (saveVaultData P w)) SALT_KEY = storage w SALT_KEY"
  using keys_differ
  by (cases "cryptoKey w")
    (simp_all add: saveVaultData_def encrypt_def saveVault_def getRandomBytes_def Let_def
      fromCharCode_spread_def)

lemma save_render_salt:
  "storage (snd (case saveVaultData P w of
                   (Inl e, w1) \<Rightarrow> (Inl e, w1)
                 | (Inr u, w1) \<Rightarrow> renderEntries w1)) SALT_KEY = storage w SALT_KEY"
proof -
  obtain r w1 where sv: "saveVaultData P w = (r, w1)" by (cases "saveVaultData P w")
  then have s1: "storage w1 SALT_KEY = storage w SALT_KEY"
    using saveVaultData_salt [of P w] by simp
  show ?thesis
    using sv s1 renderEntries_storage [of w1] by (cases r) simp_all
qed

lemma deleteEntry_salt: "storage (snd (deleteEntry P i w)) SALT_KEY = storage w SALT_KEY"
proof (cases "entries w")
  case (JArr xs)
  show ?thesis
  proof (cases "filter_id i xs")
    case (Inl e)
    with JArr show ?thesis by (simp add: deleteEntry_def)
  next
    case (Inr ys)
    with JArr show ?thesis
      using save_render_salt [of P "w\<lparr>entries := JArr ys\<rparr>"] by (simp add: deleteEntry_def)
  qed
qed (simp_all add: deleteEntry_def)

lemma addEntry_salt:
  "storage (snd (addEntry P title content w)) SALT_KEY = storage w SALT_KEY"
proof (cases "title = [] \<or> content = []")
  case True
  then show ?thesis by (auto simp add: addEntry_def page_defs)
next
  case False
  let ?w1 = "w\<lparr>drawn := drawn w + 16\<rparr>"
  let ?uuid = "uuid_text P (map (entropy w) [drawn w ..< drawn w + 16])"
  let ?new = "JObj [(''id'', JStr ?uuid), (''title'', JStr (trim title)),
                    (''content'', JStr (trim content))]"
  have ru: "randomUUID P w = (?uuid, ?w1)"
    by (simp add: randomUUID_def getRandomBytes_def)
  show ?thesis
  proof (cases "entries w")
    case (JArr xs)
    let ?w2 = "?w1\<lparr>entries := JArr (xs @ [?new])\<rparr>"
    obtain r w3 where sv: "saveVaultData P ?w2 = (r, w3)" by (cases "saveVaultData P ?w2")
    then have s3: "storage w3 SALT_KEY = storage w SALT_KEY"
      using saveVaultData_salt [of P ?w2] by simp
    obtain r' w4 where re: "renderEntries w3 = (r', w4)" by (cases "renderEntries w3")
    then have s4: "storage w4 = storage w3" using renderEntries_storage [of w3] by simp
    from False JArr ru sv re s3 s4 show ?thesis
      by (cases r; cases r') (simp_all add: addEntry_def page_defs)
  qed (use False ru in \<open>simp_all add: addEntry_def\<close>)
qed

lemma handleAddEntry_salt: "storage (snd (handleAddEntry P w)) SALT_KEY = storage w SALT_KEY"
proof (cases "trim (entry_title w) = [] \<or> trim (entry_content w) = []")
  case True
  then show ?thesis by (auto simp add: handleAddEntry_def page_defs)
next
  case False
  then have "handleAddEntry P w =
      addEntry P (trim (entry_title w)) (trim (entry_content w)) (hideEntryError w)"
    by (simp add: handleAddEntry_def Let_def page_defs)
  then show ?thesis
    using addEntry_salt [of P "trim (entry_title w)" "trim (entry_content w)" "hideEntryError w"]
    by (simp add: page_defs)
qed

lemma handleLogout_storage: "storage (handleLogout w) = storage w"
  by (simp add: handleLogout_def page_defs)

lemma handleUnlock_after_salt:
  assumes "master_password w \<noteq> []" and "loadSalt P w = Inr loaded"
  shows "handleUnlock P w =
     (let s = (case loaded of Some stored \<Rightarrow> stored | None \<Rightarrow> next_bytes w 16);
          w1 = (case loaded of
                  Some stored \<Rightarrow> hideLoginError w
                | None \<Rightarrow>
                    (hideLoginError w)
                      \<lparr>drawn := drawn w + 16,
                        storage := (storage w)(SALT_KEY \<mapsto>
                          btoa P (fromCharCode (next_bytes w 16)))\<rparr>);
          w3 = w1\<lparr>salt := Some s, cryptoKey := Some (deriveKey P (master_password w) s)\<rparr>;
          (success, w4) = loadVaultData P w3
      in if \<not> success
         then (showLoginError ''Invalid password or corrupted vault.'' w4)\<lparr>cryptoKey := None\<rparr>
         else
           (let w5 = w4\<lparr>master_password := []\<rparr>;
                w6 = showVaultSection w5
            in case renderEntries w6 of
                 (Inl err, w7) \<Rightarrow>
                   showLoginError ''An error occurred during unlock.''
                     (w7\<lparr>console := console w7 @ [(''Unlock error:'', err)]\<rparr>)
               | (Inr u, w7) \<Rightarrow> w7))"
proof -
  have l0: "loadSalt P (hideLoginError w) = Inr loaded"
    using assms(2) by (simp add: loadSalt_def page_defs)
  show ?thesis
  proof (cases loaded)
    case None
    have sv: "saveSalt P (next_bytes w 16) v =
        Inr (v\<lparr>storage := (storage v)(SALT_KEY \<mapsto> btoa P (fromCharCode (next_bytes w 16)))\<rparr>)"
      for v :: "'a world"
      by (rule saveSalt_16) simp
    from assms(1) l0 None show ?thesis
      by (simp add: handleUnlock_def Let_def getRandomBytes_def sv hideLoginError_def
          showLoginError_def)
  next
    case (Some stored)
    with assms(1) l0 show ?thesis
      by (simp add: handleUnlock_def Let_def hideLoginError_def showLoginError_def)
  qed
qed

lemma handleUnlock_storage:
  "storage (handleUnlock P w) =
     (if master_password w \<noteq> [] \<and> loadSalt P w = Inr None
      then (storage w)(SALT_KEY \<mapsto>
             btoa P (fromCharCode (map (entropy w) [drawn w ..< drawn w + 16])))
      else storage w)"
proof (cases "master_password w = []")
  case True
  then show ?thesis by (simp add: handleUnlock_def page_defs)
next
  case False
  have l0: "loadSalt P (hideLoginError w) = loadSalt P w"
    by (simp add: loadSalt_def page_defs)
  show ?thesis
  proof (cases "loadSalt P w")
    case (Inl err)
    with False l0 show ?thesis by (simp add: handleUnlock_def page_defs)
  next
    case (Inr loaded)
    let ?s = "case loaded of Some stored \<Rightarrow> stored | None \<Rightarrow> next_bytes w 16"
    let ?w1 = "case loaded of
                 Some stored \<Rightarrow> hideLoginError w
               | None \<Rightarrow>
                   (hideLoginError w)
                     \<lparr>drawn := drawn w + 16,
                       storage := (storage w)(SALT_KEY \<mapsto>
                         btoa P (fromCharCode (next_bytes w 16)))\<rparr>"
    let ?w3 = "?w1\<lparr>salt := Some ?s, cryptoKey := Some (deriveKey P (master_password w) ?s)\<rparr>"
    obtain b w4 where lv: "loadVaultData P ?w3 = (b, w4)" by (cases "loadVaultData P ?w3")
    then have s4: "storage w4 = storage ?w3" using loadVaultData_storage [of P ?w3] by simp
    obtain r w7 where re: "renderEntries (showVaultSection (w4\<lparr>master_password := []\<rparr>)) = (r, w7)"
      by (cases "renderEntries (showVaultSection (w4\<lparr>master_password := []\<rparr>))")
    then have s7: "storage w7 = storage w4"
      using renderEntries_storage [of "showVaultSection (w4\<lparr>master_password := []\<rparr>)"]
      by (simp add: page_defs)
    have "storage (handleUnlock P w) = storage ?w3"
      unfolding handleUnlock_after_salt [OF False Inr]
      using lv re s4 s7 by (cases r) (simp_all add: Let_def showLoginError_def)
    then show ?thesis
      using False Inr by (cases loaded) (simp_all add: page_defs)
  qed
qed

lemma handleUnlock_failure:
  assumes pw: "master_password w \<noteq> []"
    and ls: "loadSalt P w = Inr loaded"
    and s: "s = (case loaded of Some stored \<Rightarrow> stored
                 | None \<Rightarrow> map (entropy w) [drawn w ..< drawn w + 16])"
    and env: "storage w STORAGE_KEY = Some env" "env \<noteq> []"
    and fail: "decrypt P (Some (deriveKey P (master_password w) s)) env = Inl e \<or>
               (\<exists>t. decrypt P (Some (deriveKey P (master_password w) s)) env = Inr t \<and>
                    json_parse P t = None)"
  shows "cryptoKey (handleUnlock P w) = None \<and>
         login_error (handleUnlock P w) = ''Invalid password or corrupted vault.'' \<and>
         entries (handleUnlock P w) = entries w \<and>
         storage (handleUnlock P w) STORAGE_KEY = Some env \<and>
         login_section (handleUnlock P w) = login_section w \<and>
         vault_section (handleUnlock P w) = vault_section w"
proof -
  let ?k = "deriveKey P (master_password w) s"
  let ?w1 = "case loaded of
               Some stored \<Rightarrow> hideLoginError w
             | None \<Rightarrow>
                 (hideLoginError w)
                   \<lparr>drawn := drawn w + 16,
                     storage := (storage w)(SALT_KEY \<mapsto>
                       btoa P (fromCharCode (next_bytes w 16)))\<rparr>"
  let ?w3 = "?w1\<lparr>salt := Some s, cryptoKey := Some ?k\<rparr>"
  have st: "storage ?w3 STORAGE_KEY = Some env"
    using env(1) keys_differ by (cases loaded) (simp_all add: page_defs)
  have "cryptoKey ?w3 = Some ?k" by simp
  with loadVaultData_fails [OF st env(2), of P e] fail
  obtain e' where lv: "loadVaultData P ?w3 =
      (False, ?w3\<lparr>console := console ?w3 @ [(''Failed to decrypt vault:'', e')]\<rparr>)"
    by auto
  have hu: "handleUnlock P w =
      (showLoginError ''Invalid password or corrupted vault.''
         (?w3\<lparr>console := console ?w3 @ [(''Failed to decrypt vault:'', e')]\<rparr>))
         \<lparr>cryptoKey := None\<rparr>"
    unfolding handleUnlock_after_salt [OF pw ls]
    using lv s by (simp add: Let_def)
  show ?thesis
    using env(1) keys_differ by (cases loaded) (simp_all add: hu page_defs)
qed

lemma handleUnlock_loaded:
  assumes pw: "master_password w \<noteq> []"
    and ls: "loadSalt P w = Inr (Some s)"
    and lv: "loadVaultData P
               ((hideLoginError w)\<lparr>salt := Some s,
                  cryptoKey := Some (deriveKey P (master_password w) s)\<rparr>) =
             (True, (hideLoginError w)\<lparr>salt := Some s,
                  cryptoKey := Some (deriveKey P (master_password w) s),
                  entries := JArr (map to_json E)\<rparr>)"
  shows "entries (handleUnlock P w) = JArr (map to_json E) \<and>
         cryptoKey (handleUnlock P w) = Some (deriveKey P (master_password w) s) \<and>
         login_error (handleUnlock P w) = []"
proof -
  let ?w3 = "(hideLoginError w)\<lparr>salt := Some s,
      cryptoKey := Some (deriveKey P (master_password w) s)\<rparr>"
  let ?w6 = "showVaultSection (?w3\<lparr>entries := JArr (map to_json E), master_password := []\<rparr>)"
  let ?v = "if E = [] then TextContent ''Your vault is empty.''
            else Children (map (\<lambda>e. (Some (JStr (eid e)), Some (JStr (etitle e)),
                                        Some (JStr (econtent e)))) E)"
  have r: "renderEntries ?w6 = (Inr (), ?w6\<lparr>entries_list := ?v\<rparr>)"
    by (rule renderEntries_entries) (simp add: page_defs)
  have "handleUnlock P w = ?w6\<lparr>entries_list := ?v\<rparr>"
    unfolding handleUnlock_after_salt [OF pw ls]
    using lv r by (simp add: Let_def)
  then show ?thesis by (simp add: page_defs)
qed

lemma perform_keeps_salt:
  assumes "storage w SALT_KEY = Some stored" and "stored \<noteq> []"
  shows "storage (perform P a w) SALT_KEY = Some stored"
proof (cases a)
  case (Unlock password)
  have "loadSalt P (w\<lparr>master_password := password\<rparr>) \<noteq> Inr None"
    using assms by (simp add: loadSalt_def split: option.splits)
  with Unlock assms(1) show ?thesis by (simp add: handleUnlock_storage)
next
  case Logout
  with assms(1) show ?thesis by (simp add: handleLogout_storage)
next
  case (AddEntry title content)
  with assms(1) show ?thesis by (simp add: handleAddEntry_salt)
next
  case (DeleteEntry i)
  with assms(1) show ?thesis by (simp add: deleteEntry_salt)
qed

lemma run_keeps_salt:
  assumes "storage w SALT_KEY = Some stored" and "stored \<noteq> []"
  shows "storage (run P as w) SALT_KEY = Some stored"
  using assms(1)
proof (induction as arbitrary: w)
  case Nil
  then show ?case by (simp add: run_def)
next
  case (Cons a as)
  from perform_keeps_salt [OF Cons.prems assms(2)]
  have "storage (perform P a w) SALT_KEY = Some stored" .
  from Cons.IH [OF this] show ?case by (simp add: run_def)
qed

subsection \<open>Entries\<close>

lemma filter_id_entries:
  "filter_id i (map to_json E) = Inr (map to_json (filter (\<lambda>e. eid e \<noteq> i) E))"
  by (induction E) (simp_all add: to_json_def)

lemma filter_absent: "i \<notin> eid ` set E \<Longrightarrow> filter (\<lambda>e. eid e \<noteq> i) E = E"
  by (induction E) auto

lemma trimmed_trim: "trimmed (trim s)"
proof (cases "trim s = []")
  case True
  then show ?thesis by (simp add: trimmed_def)
next
  case False
  let ?t = "dropWhile is_white_space s"
  let ?d = "dropWhile is_white_space (rev ?t)"
  have u: "trim s = rev ?d" by (simp add: trim_def)
  with False have d: "?d \<noteq> []" by simp
  then have "\<not> is_white_space (hd ?d)" by (rule hd_dropWhile)
  with d have l: "\<not> is_white_space (last (trim s))" by (simp add: u last_rev)
  have "rev (takeWhile is_white_space (rev ?t) @ ?d) = rev (rev ?t)"
    by (simp only: takeWhile_dropWhile_id)
  then have "rev ?d @ rev (takeWhile is_white_space (rev ?t)) = ?t"
    by (simp only: rev_append rev_rev_ident)
  then have t: "?t = trim s @ rev (takeWhile is_white_space (rev ?t))"
    by (simp only: u)
  have "?t \<noteq> []"
  proof
    assume "?t = []"
    then have "trim s = []" unfolding trim_def by (simp only: rev.simps dropWhile.simps)
    with False show False by simp
  qed
  then have "\<not> is_white_space (hd ?t)" by (rule hd_dropWhile)
  moreover from t False have "hd ?t = hd (trim s)" by (metis hd_append2)
  ultimately have h: "\<not> is_white_space (hd (trim s))" by simp
  from h l show ?thesis by (simp add: trimmed_def)
qed

lemma addEntry_unlocked:
  assumes t: "title \<noteq> []" and c: "content \<noteq> []"
    and en: "entries w = JArr xs" and ck: "cryptoKey w = Some k"
  shows "entries (snd (addEntry P title content w)) =
           JArr (xs @ [JObj [(''id'', JStr (uuid_text P (next_bytes w 16))),
                             (''title'', JStr (trim title)),
                             (''content'', JStr (trim content))]])"
    and "accepted P (length
           (buffer_of P k (map (entropy w) [drawn w + 16 ..< drawn w + 16 + 12])
              (json_stringify P
                (JArr (xs @ [JObj [(''id'', JStr (uuid_text P (next_bytes w 16))),
                                   (''title'', JStr (trim title)),
                                   (''content'', JStr (trim content))]]))))) \<Longrightarrow>
         storage (snd (addEntry P title content w)) STORAGE_KEY =
           Some (btoa P (fromCharCode
             (buffer_of P k (map (entropy w) [drawn w + 16 ..< drawn w + 16 + 12])
                (json_stringify P
                  (JArr (xs @ [JObj [(''id'', JStr (uuid_text P (next_bytes w 16))),
                                     (''title'', JStr (trim title)),
                                     (''content'', JStr (trim content))]]))))))"
    and "\<not> accepted P (length
           (buffer_of P k (map (entropy w) [drawn w + 16 ..< drawn w + 16 + 12])
              (json_stringify P
                (JArr (xs @ [JObj [(''id'', JStr (uuid_text P (next_bytes w 16))),
                                   (''title'', JStr (trim title)),
                                   (''content'', JStr (trim content))]]))))) \<Longrightarrow>
         storage (snd (addEntry P title content w)) = storage w"
    and "cryptoKey (snd (addEntry P title content w)) = Some k"
proof -
  let ?uuid = "uuid_text P (next_bytes w 16)"
  let ?new = "JObj [(''id'', JStr ?uuid), (''title'', JStr (trim title)),
                    (''content'', JStr (trim content))]"
  let ?w2 = "w\<lparr>drawn := drawn w + 16, entries := JArr (xs @ [?new])\<rparr>"
  let ?buf = "buffer_of P k (map (entropy w) [drawn w + 16 ..< drawn w + 16 + 12])
                (json_stringify P (JArr (xs @ [?new])))"
  have ru: "randomUUID P w = (?uuid, w\<lparr>drawn := drawn w + 16\<rparr>)"
    by (simp add: randomUUID_def getRandomBytes_def)
  have ck2: "cryptoKey ?w2 = Some k" using ck by simp
  obtain r w3 where sv: "saveVaultData P ?w2 = (r, w3)" by (cases "saveVaultData P ?w2")
  obtain r' w4 where re: "renderEntries w3 = (r', w4)" by (cases "renderEntries w3")
  from renderEntries_frame [of w3] re obtain v where w4: "w4 = w3\<lparr>entries_list := v\<rparr>"
    by auto
  have res: "snd (addEntry P title content w) =
      (case r of Inl e \<Rightarrow> w3
       | Inr u \<Rightarrow> (case r' of Inl e \<Rightarrow> w4 | Inr u' \<Rightarrow> clearEntryForm w4))"
    using t c en ru sv re by (cases r; cases r') (simp_all add: addEntry_def)
  have e3: "entries w3 = JArr (xs @ [?new])"
    using saveVaultData_page(3) [of P ?w2] sv by simp
  show "entries (snd (addEntry P title content w)) = JArr (xs @ [?new])"
    using e3 w4 by (cases r; cases r') (simp_all add: res page_defs)
  have "cryptoKey w3 = Some k"
    using saveVaultData_page(4) [of P ?w2] sv ck by simp
  then show "cryptoKey (snd (addEntry P title content w)) = Some k"
    using w4 by (cases r; cases r') (simp_all add: res page_defs)
  {
    assume a: "accepted P (length ?buf)"
    have "saveVaultData P ?w2 =
        (Inr (), ?w2\<lparr>drawn := drawn ?w2 + 12,
           storage := (storage ?w2)(STORAGE_KEY \<mapsto> btoa P (fromCharCode ?buf))\<rparr>)"
      using saveVaultData_accepted [OF ck2, of P] a by simp
    with sv have "r = Inr ()" and "storage w3 STORAGE_KEY = Some (btoa P (fromCharCode ?buf))"
      by auto
    then show "storage (snd (addEntry P title content w)) STORAGE_KEY =
        Some (btoa P (fromCharCode ?buf))"
      using w4 by (cases r') (simp_all add: res page_defs)
  }
  {
    assume a: "\<not> accepted P (length ?buf)"
    have "saveVaultData P ?w2 = (Inl RangeError, ?w2\<lparr>drawn := drawn ?w2 + 12\<rparr>)"
      using saveVaultData_refused [OF ck2, of P] a by simp
    with sv have "r = Inl RangeError" and "storage w3 = storage w" by auto
    then show "storage (snd (addEntry P title content w)) = storage w"
      by (simp add: res)
  }
qed

lemma deleteEntry_unlocked:
  assumes en: "entries w = JArr (map to_json E)" and ck: "cryptoKey w = Some k"
  shows "entries (snd (deleteEntry P i w)) = JArr (map to_json (filter (\<lambda>e. eid e \<noteq> i) E))"
    and "accepted P (length (buffer_of P k (next_bytes w 12)
           (json_stringify P (JArr (map to_json (filter (\<lambda>e. eid e \<noteq> i) E)))))) \<Longrightarrow>
         fst (deleteEntry P i w) = Inr () \<and>
         storage (snd (deleteEntry P i w)) =
           (storage w)(STORAGE_KEY \<mapsto> btoa P (fromCharCode (buffer_of P k (next_bytes w 12)
             (json_stringify P (JArr (map to_json (filter (\<lambda>e. eid e \<noteq> i) E)))))))"
    and "\<not> accepted P (length (buffer_of P k (next_bytes w 12)
           (json_stringify P (JArr (map to_json (filter (\<lambda>e. eid e \<noteq> i) E)))))) \<Longrightarrow>
         fst (deleteEntry P i w) = Inl RangeError \<and>
         storage (snd (deleteEntry P i w)) = storage w"
proof -
  let ?kept = "JArr (map to_json (filter (\<lambda>e. eid e \<noteq> i) E))"
  let ?w1 = "w\<lparr>entries := ?kept\<rparr>"
  let ?buf = "buffer_of P k (next_bytes w 12) (json_stringify P ?kept)"
  have ck1: "cryptoKey ?w1 = Some k" using ck by simp
  have de: "deleteEntry P i w =
      (case saveVaultData P ?w1 of
         (Inl e, w2) \<Rightarrow> (Inl e, w2)
       | (Inr u, w2) \<Rightarrow> renderEntries w2)"
    using en by (simp add: deleteEntry_def filter_id_entries)
  {
    assume a: "accepted P (length ?buf)"
    let ?w2 = "?w1\<lparr>drawn := drawn w + 12,
        storage := (storage w)(STORAGE_KEY \<mapsto> btoa P (fromCharCode ?buf))\<rparr>"
    have sv: "saveVaultData P ?w1 = (Inr (), ?w2)"
      using saveVaultData_accepted [OF ck1, of P] a by simp
    have "entries ?w2 = ?kept" by simp
    from renderEntries_entries [OF this]
    obtain v where re: "renderEntries ?w2 = (Inr (), ?w2\<lparr>entries_list := v\<rparr>)" by blast
    have "deleteEntry P i w = (Inr (), ?w2\<lparr>entries_list := v\<rparr>)"
      by (simp add: de sv re)
    then have "entries (snd (deleteEntry P i w)) = ?kept \<and> fst (deleteEntry P i w) = Inr () \<and>
        storage (snd (deleteEntry P i w)) =
          (storage w)(STORAGE_KEY \<mapsto> btoa P (fromCharCode ?buf))"
      by simp
  }
  note yes = this
  {
    assume a: "\<not> accepted P (length ?buf)"
    have sv: "saveVaultData P ?w1 = (Inl RangeError, ?w1\<lparr>drawn := drawn w + 12\<rparr>)"
      using saveVaultData_refused [OF ck1, of P] a by simp
    have "deleteEntry P i w = (Inl RangeError, ?w1\<lparr>drawn := drawn w + 12\<rparr>)"
      by (simp add: de sv)
    then have "entries (snd (deleteEntry P i w)) = ?kept \<and>
        fst (deleteEntry P i w) = Inl RangeError \<and>
        storage (snd (deleteEntry P i w)) = storage w"
      by simp
  }
  note no = this
  show "entries (snd (deleteEntry P i w)) = ?kept"
    using yes no by blast
  show "accepted P (length ?buf) \<Longrightarrow>
      fst (deleteEntry P i w) = Inr () \<and>
      storage (snd (deleteEntry P i w)) =
        (storage w)(STORAGE_KEY \<mapsto> btoa P (fromCharCode ?buf))"
    using yes by blast
  show "\<not> accepted P (length ?buf) \<Longrightarrow>
      fst (deleteEntry P i w) = Inl RangeError \<and>
      storage (snd (deleteEntry P i w)) = storage w"
    using no by blast
qed

subsection \<open>The small platform and its worlds\<close>

lemma key_unframe_frame: "key_unframe k (key_frame k @ m) = Some m"
  by (induction k) simp_all

lemma key_unframe_other: "k \<noteq> k' \<Longrightarrow> key_unframe k' (key_frame k @ m) = None"
proof (induction k' arbitrary: k)
  case Nil
  then show ?case by (cases k) simp_all
next
  case (Cons b bs)
  show ?case
  proof (cases k)
    case Nil
    then show ?thesis by (cases m) simp_all
  next
    case (Cons a as)
    with Cons.prems Cons.IH [of as] show ?thesis by auto
  qed
qed

lemma length_key_frame: "length (key_frame k) = 2 * length k + 1"
  by (induction k) simp_all

lemma length_charCodes: "length (charCodes s) = length s"
  by (simp add: charCodes_def)

lemma hmac_key_zero:
  assumes "length password < 64"
  shows "hmac_key (password @ [0]) = hmac_key password"
proof -
  from assms have "64 - length password = Suc (64 - (length password + 1))" by simp
  then have "replicate (64 - length password) (0 :: byte) =
      0 # replicate (64 - (length password + 1)) 0"
    by (simp only: replicate_Suc)
  then show ?thesis by (simp add: hmac_key_def)
qed

lemma sample_base64_ok: "base64_ok sample"
  by (simp add: base64_ok_def sample_def)

lemma sample_utf8_ok: "utf8_ok sample"
  by (simp add: utf8_ok_def sample_def fromCharCode_charCodes)

lemma sample_aes_gcm_ok: "aes_gcm_ok sample"
  by (simp add: aes_gcm_ok_def sample_def key_unframe_frame)

lemma sample_salt_text: "fromCharCode sample_salt \<noteq> []"
  by (simp add: sample_salt_def fromCharCode_def)

lemma sample_entries_json:
  "sample_entries = JArr (map to_json [\<lparr>eid = ''1'', etitle = ''Note'', econtent = ''secret''\<rparr>])"
  by (simp add: sample_entries_def)

lemma sample_parse_entries:
  "json_parse sample (json_stringify sample sample_entries) = Some sample_entries"
  by (simp add: sample_def sample_parse_def)

lemma open_vault_fields:
  "entries open_vault = sample_entries"
  "cryptoKey open_vault = Some (deriveKey sample ''orange123'' sample_salt)"
  "storage open_vault SALT_KEY = Some (fromCharCode sample_salt)"
  by (simp_all add: open_vault_def start_def)

lemma sample_text_length: "length (sample_stringify sample_entries) = 46"
  by (simp add: sample_entries_def to_json_def)

lemma open_vault_saved: "fst (saveVaultData sample open_vault) = Inr ()"
proof -
  have "accepted sample (length (buffer_of sample (deriveKey sample ''orange123'' sample_salt)
      (next_bytes open_vault 12) (json_stringify sample (entries open_vault))))"
    by (simp add: open_vault_fields sample_def length_key_frame length_charCodes
        sample_text_length hmac_key_def deriveKey_def encodeUTF8_def sample_salt_def)
  from saveVaultData_accepted [OF open_vault_fields(2) this] show ?thesis by simp
qed

lemma reopened_fields:
  "storage (reopened password) STORAGE_KEY =
     storage (snd (saveVaultData sample open_vault)) STORAGE_KEY"
  "loadSalt sample (reopened password) = Inr (Some sample_salt)"
  "master_password (reopened password) = password"
  "entries (reopened password) = JArr []"
  "vault_section (reopened password) = Hidden"
proof -
  have s: "storage (reopened password) = storage (snd (saveVaultData sample open_vault))"
    by (simp add: reopened_def handleLogout_storage)
  then show "storage (reopened password) STORAGE_KEY =
     storage (snd (saveVaultData sample open_vault)) STORAGE_KEY" by simp
  have "storage (reopened password) SALT_KEY = Some (fromCharCode sample_salt)"
    by (simp add: s saveVaultData_salt open_vault_fields)
  then show "loadSalt sample (reopened password) = Inr (Some sample_salt)"
    using sample_salt_text by (simp add: loadSalt_def sample_def charCodes_fromCharCode)
  show "master_password (reopened password) = password"
    by (simp add: reopened_def)
  show "entries (reopened password) = JArr []"
    by (simp add: reopened_def handleLogout_def page_defs)
  have "vault_section (snd (saveVaultData sample open_vault)) = Visible"
    by (simp add: saveVaultData_page) (simp add: open_vault_def)
  then show "vault_section (reopened password) = Hidden"
    by (simp add: reopened_def handleLogout_def page_defs)
qed

lemma sealed_decrypt: "decrypt sample (Some [7]) (sealed_text t) = Inr t"
  by (simp add: sealed_text_def decrypt_def sample_def charCodes_fromCharCode
      IV_LENGTH_def decodeUTF8_def fromCharCode_charCodes)

lemma sealed_text_nonempty: "sealed_text t \<noteq> []"
  by (simp add: sealed_text_def fromCharCode_def)

lemma sealed_vault_fields:
  "storage (sealed_vault t) STORAGE_KEY = Some (sealed_text t)"
  "cryptoKey (sealed_vault t) = Some [7]"
  by (simp_all add: sealed_vault_def)

lemma garbled_loadSalt: "loadSalt sample garbled_vault = Inr (Some sample_salt)"
  using sample_salt_text
  by (simp add: loadSalt_def garbled_vault_def start_def SALT_KEY_def STORAGE_KEY_def
      sample_def charCodes_fromCharCode)

lemma garbled_decrypt:
  "decrypt sample (Some (deriveKey sample ''orange123'' sample_salt)) ''garbage'' =
     Inl OperationError"
  by (simp add: decrypt_def sample_def deriveKey_def encodeUTF8_def charCodes_def
      sample_salt_def IV_LENGTH_def)

lemma null_store_decrypt:
  "decrypt sample (Some (deriveKey sample ''orange123'' sample_salt)) null_envelope =
     Inr ''null''"
  by (simp add: null_envelope_def decrypt_def sample_def charCodes_fromCharCode IV_LENGTH_def
      deriveKey_def encodeUTF8_def decodeUTF8_def key_unframe_frame fromCharCode_charCodes)

lemma big_vault_fields:
  "entries big_vault = JArr [to_json big_entry]"
  "cryptoKey big_vault = Some (deriveKey sample ''orange123'' sample_salt)"
  "storage big_vault SALT_KEY = Some (fromCharCode sample_salt)"
  "storage big_vault STORAGE_KEY = None"
  by (simp_all add: big_vault_def open_vault_def start_def SALT_KEY_def STORAGE_KEY_def)

lemma long_text_refused:
  assumes "125000 < length t"
  shows "\<not> accepted sample (length (buffer_of sample k iv t))"
  using assms by (simp add: sample_def length_charCodes)

lemma big_text_length: "125000 < length (sample_stringify (JArr [to_json big_entry]))"
  by (simp add: big_entry_def big_content_def to_json_def)

lemma big_refused:
  "\<not> accepted sample (length (buffer_of sample k iv (sample_stringify (JArr [to_json big_entry]))))"
  using big_text_length by (rule long_text_refused)

lemma big_vault_not_saved:
  "saveVaultData sample big_vault = (Inl RangeError, big_vault\<lparr>drawn := drawn big_vault + 12\<rparr>)"
proof -
  have "\<not> accepted sample (length (buffer_of sample (deriveKey sample ''orange123'' sample_salt)
      (next_bytes big_vault 12) (json_stringify sample (entries big_vault))))"
    using big_refused [where k = "deriveKey sample ''orange123'' sample_salt" and
        iv = "next_bytes big_vault 12"]
    by (simp add: big_vault_fields) (simp add: sample_def)
  from saveVaultData_refused [OF big_vault_fields(2) this] show ?thesis .
qed

lemma open_vault_envelope:
  "storage (snd (saveVaultData sample open_vault)) STORAGE_KEY = Some saved_envelope"
  using saveVaultData_saved [OF open_vault_fields(2) open_vault_saved]
  by (simp add: saved_envelope_def open_vault_fields)

lemma saved_envelope_opens:
  "decrypt sample (Some (deriveKey sample ''orange123'' sample_salt)) saved_envelope =
     Inr (json_stringify sample sample_entries)"
proof -
  have "length (map (entropy open_vault) [drawn open_vault ..< drawn open_vault + 12]) = 12"
    by simp
  from decrypt_envelope [OF sample_base64_ok this] show ?thesis
    by (simp add: saved_envelope_def)
      (simp add: sample_def key_unframe_frame fromCharCode_charCodes)
qed

lemma padded_password_key:
  "padded_password \<noteq> ''orange123''"
  "deriveKey sample padded_password sample_salt = deriveKey sample ''orange123'' sample_salt"
proof -
  show "padded_password \<noteq> ''orange123''" by (simp add: padded_password_def)
  have "length (charCodes ''orange123'') < 64" by (simp add: charCodes_def)
  from hmac_key_zero [OF this] show
    "deriveKey sample padded_password sample_salt = deriveKey sample ''orange123'' sample_salt"
    by (simp add: deriveKey_def encodeUTF8_def sample_def padded_password_def charCodes_def)
qed

lemma trim_big_content: "trim big_content = big_content"
proof -
  have "dropWhile is_white_space (replicate n CHR ''a'') = replicate n CHR ''a''" for n
    by (cases n) (simp_all add: is_white_space_def)
  then show ?thesis by (simp add: trim_def big_content_def)
qed

lemma saved_vault_fields:
  "entries saved_vault = JArr [to_json \<lparr>eid = ''1'', etitle = ''Note'', econtent = ''secret''\<rparr>]"
  "cryptoKey saved_vault = Some (deriveKey sample ''orange123'' sample_salt)"
  "storage saved_vault STORAGE_KEY = Some saved_envelope"
  by (simp_all add: saved_vault_def saveVaultData_page open_vault_fields open_vault_envelope
      sample_entries_def)

lemma added_entry_id: "eid added_entry \<noteq> ''1''"
proof -
  have "length (eid added_entry) = 16"
    by (simp add: added_entry_def sample_def fromCharCode_def)
  then show ?thesis by auto
qed

lemma added_text_length:
  "125000 < length (sample_stringify (JArr [to_json added_entry]))"
  "125000 < length (sample_stringify
     (JArr [to_json \<lparr>eid = ''1'', etitle = ''Note'', econtent = ''secret''\<rparr>,
            to_json added_entry]))"
  by (simp_all add: added_entry_def big_content_def to_json_def)

lemma crowded_vault_fields:
  "entries crowded_vault =
     JArr (map to_json [\<lparr>eid = ''1'', etitle = ''Note'', econtent = ''secret''\<rparr>, added_entry])"
  "cryptoKey crowded_vault = Some (deriveKey sample ''orange123'' sample_salt)"
  "storage crowded_vault STORAGE_KEY = Some saved_envelope"
proof -
  let ?k = "deriveKey sample ''orange123'' sample_salt"
  have t: "''Big'' \<noteq> []" by simp
  have c: "big_content \<noteq> []" by (simp add: big_content_def)
  have tr: "trim ''Big'' = ''Big''" by (simp add: trim_def is_white_space_def)
  have new: "JObj [(''id'', JStr (uuid_text sample (next_bytes saved_vault 16))),
                   (''title'', JStr (trim ''Big'')),
                   (''content'', JStr (trim big_content))] = to_json added_entry"
    by (simp add: tr trim_big_content added_entry_def to_json_def)
  note facts = addEntry_unlocked [OF t c saved_vault_fields(1,2), where P = sample]
  from facts(1) show "entries crowded_vault =
     JArr (map to_json [\<lparr>eid = ''1'', etitle = ''Note'', econtent = ''secret''\<rparr>, added_entry])"
    by (simp only: new crowded_vault_def) simp
  from facts(4) show "cryptoKey crowded_vault = Some ?k"
    by (simp only: crowded_vault_def)
  have "\<not> accepted sample (length
      (buffer_of sample ?k
         (map (entropy saved_vault) [drawn saved_vault + 16 ..< drawn saved_vault + 16 + 12])
         (json_stringify sample
            (JArr ([to_json \<lparr>eid = ''1'', etitle = ''Note'', econtent = ''secret''\<rparr>] @
                   [to_json added_entry])))))"
    using long_text_refused [OF added_text_length(2), where k = ?k and
        iv = "map (entropy saved_vault) [drawn saved_vault + 16 ..< drawn saved_vault + 16 + 12]"]
    by (simp add: sample_def)
  from facts(3) [unfolded new, OF this] saved_vault_fields(3)
  show "storage crowded_vault STORAGE_KEY = Some saved_envelope"
    by (simp only: crowded_vault_def)
qed

section \<open>Round trip\<close>

text \<open>
  As long as the engine accepts the spread of the sealed buffer, saving and loading again
  restores the entries. For every list of entries \<open>E\<close>, every password and every salt:
  what \<open>encrypt\<close> produces under the derived key, \<open>decrypt\<close> opens under the same key to the
  same text; and when a session holding \<open>E\<close> under that key saves, a later session that
  finds the saved envelope and uses the same key loads exactly \<open>E\<close>, in the same order and
  with the same \<open>id\<close>, \<open>title\<close> and \<open>content\<close>, both through \<open>loadVaultData\<close> and through a
  whole \<open>handleUnlock\<close> with the same password. The browser is assumed to decode what it
  encodes (base64, UTF-8, AES-GCM under one key and nonce, and JSON on the text of \<open>E\<close>).
\<close>

lemma round_trip_when_accepted:
  assumes "base64_ok P" and "utf8_ok P" and "aes_gcm_ok P"
    and js: "json_parse P (json_stringify P (JArr (map to_json E))) = Some (JArr (map to_json E))"
    and en: "entries w = JArr (map to_json E)"
    and ck: "cryptoKey w = Some (deriveKey P password s)"
    and acc: "accepted P (length (buffer_of P (deriveKey P password s) (next_bytes w 12)
                (json_stringify P (entries w))))"
    and st: "storage w2 STORAGE_KEY = storage (snd (saveVaultData P w)) STORAGE_KEY"
  shows "(\<forall>data v.
            accepted P (length (buffer_of P (deriveKey P password s) (next_bytes v 12) data)) \<longrightarrow>
            (\<exists>envelope.
               fst (encrypt P (Some (deriveKey P password s)) data v) = Inr envelope \<and>
               decrypt P (Some (deriveKey P password s)) envelope = Inr data)) \<and>
         fst (saveVaultData P w) = Inr () \<and>
         (cryptoKey w2 = Some (deriveKey P password s) \<longrightarrow>
            loadVaultData P w2 = (True, w2\<lparr>entries := JArr (map to_json E)\<rparr>)) \<and>
         (loadSalt P w2 = Inr (Some s) \<and> master_password w2 = password \<and> password \<noteq> [] \<longrightarrow>
            entries (handleUnlock P w2) = JArr (map to_json E) \<and>
            cryptoKey (handleUnlock P w2) = Some (deriveKey P password s) \<and>
            login_error (handleUnlock P w2) = [])"
proof -
  let ?k = "deriveKey P password s"
  let ?iv = "next_bytes w 12"
  let ?env = "btoa P (fromCharCode (buffer_of P ?k ?iv (json_stringify P (entries w))))"
  have len: "length (next_bytes v 12) = 12" for v :: "'a world" by simp
  have sv: "saveVaultData P w =
      (Inr (), w\<lparr>drawn := drawn w + 12, storage := (storage w)(STORAGE_KEY \<mapsto> ?env)\<rparr>)"
    using saveVaultData_accepted [OF ck acc] .
  have st2: "storage w2 STORAGE_KEY = Some ?env" using st by (simp add: sv)
  have ne: "?env \<noteq> []" using envelope_nonempty [OF assms(1) len] .
  have dec: "decrypt P (Some ?k) ?env = Inr (json_stringify P (JArr (map to_json E)))"
    using assms(2,3) en
    by (simp add: decrypt_envelope [OF assms(1) len] aes_gcm_ok_def utf8_ok_def)
  have load: "loadVaultData P v = (True, v\<lparr>entries := JArr (map to_json E)\<rparr>)"
    if "storage v STORAGE_KEY = Some ?env" and "cryptoKey v = Some ?k" for v :: "'a world"
    using that ne dec js by (simp add: loadVaultData_def loadVault_def)
  have a: "fst (saveVaultData P w) = Inr ()" by (simp add: sv)
  have o: "\<exists>envelope. fst (encrypt P (Some ?k) data v) = Inr envelope \<and>
            decrypt P (Some ?k) envelope = Inr data"
    if "accepted P (length (buffer_of P ?k (next_bytes v 12) data))"
    for data and v :: "'a world"
    using assms(2,3)
    by (simp add: encrypt_accepted [OF that] decrypt_envelope [OF assms(1) len]
        aes_gcm_ok_def utf8_ok_def)
  have b: "loadVaultData P w2 = (True, w2\<lparr>entries := JArr (map to_json E)\<rparr>)"
    if "cryptoKey w2 = Some ?k"
    using load [OF st2 that] .
  have c: "entries (handleUnlock P w2) = JArr (map to_json E) \<and>
           cryptoKey (handleUnlock P w2) = Some ?k \<and> login_error (handleUnlock P w2) = []"
    if h: "loadSalt P w2 = Inr (Some s)" "master_password w2 = password" "password \<noteq> []"
  proof -
    let ?w3 = "(hideLoginError w2)\<lparr>salt := Some s,
        cryptoKey := Some (deriveKey P (master_password w2) s)\<rparr>"
    have pw: "master_password w2 \<noteq> []" using h(2,3) by simp
    have "loadVaultData P ?w3 = (True, ?w3\<lparr>entries := JArr (map to_json E)\<rparr>)"
      by (rule load) (simp_all add: st2 h(2) page_defs)
    from handleUnlock_loaded [OF pw h(1) this] h(2) show ?thesis by simp
  qed
  from o a b c show ?thesis by blast
qed

text \<open>
  The scenario of one small entry: saved under \<open>orange123\<close>, locked, unlocked again with
  \<open>orange123\<close>.
\<close>

lemma round_trip_scenario:
  "fst (saveVaultData sample open_vault) = Inr () \<and>
   entries (reopened ''orange123'') = JArr [] \<and>
   entries (handleUnlock sample (reopened ''orange123'')) = sample_entries \<and>
   cryptoKey (handleUnlock sample (reopened ''orange123'')) =
     Some (deriveKey sample ''orange123'' sample_salt) \<and>
   login_error (handleUnlock sample (reopened ''orange123'')) = []"
proof -
  let ?E = "[\<lparr>eid = ''1'', etitle = ''Note'', econtent = ''secret''\<rparr>]"
  have js: "json_parse sample (json_stringify sample (JArr (map to_json ?E))) =
      Some (JArr (map to_json ?E))"
    using sample_parse_entries by (simp only: sample_entries_json)
  have en: "entries open_vault = JArr (map to_json ?E)"
    using open_vault_fields(1) by (simp only: sample_entries_json)
  have acc: "accepted sample (length (buffer_of sample (deriveKey sample ''orange123'' sample_salt)
      (next_bytes open_vault 12) (json_stringify sample (entries open_vault))))"
    by (simp add: open_vault_fields sample_def length_key_frame length_charCodes
        sample_text_length hmac_key_def deriveKey_def encodeUTF8_def sample_salt_def)
  have pw: "''orange123'' \<noteq> []" by simp
  from round_trip_when_accepted
    [OF sample_base64_ok sample_utf8_ok sample_aes_gcm_ok js en open_vault_fields(2) acc
        reopened_fields(1) [of "''orange123''"]]
    reopened_fields(2,3) [of "''orange123''"] pw
  have "entries (handleUnlock sample (reopened ''orange123'')) = JArr (map to_json ?E) \<and>
        cryptoKey (handleUnlock sample (reopened ''orange123'')) =
          Some (deriveKey sample ''orange123'' sample_salt) \<and>
        login_error (handleUnlock sample (reopened ''orange123'')) = []"
    by blast
  then show ?thesis
    using open_vault_saved reopened_fields(4) [of "''orange123''"]
    by (simp only: sample_entries_json [symmetric])
qed

text \<open>
  C1. The round trip does not hold of every list of entries. A session that holds one
  entry with a content of 200000 characters cannot save it: the spread of the sealed
  buffer in \<open>encrypt\<close> has more arguments than the engine accepts, \<open>saveVaultData\<close> ends
  with a RangeError and nothing is stored. After logging out, unlocking with the same
  password finds no envelope and yields the empty list, not the entry.
\<close>

theorem large_vault_is_not_saved:
  "entries big_vault = JArr [to_json big_entry] \<and>
   cryptoKey big_vault = Some (deriveKey sample ''orange123'' sample_salt) \<and>
   fst (saveVaultData sample big_vault) = Inl RangeError \<and>
   storage (snd (saveVaultData sample big_vault)) STORAGE_KEY = None \<and>
   master_password (reopened_big ''orange123'') = ''orange123'' \<and>
   entries (handleUnlock sample (reopened_big ''orange123'')) = JArr [] \<and>
   cryptoKey (handleUnlock sample (reopened_big ''orange123'')) =
     Some (deriveKey sample ''orange123'' sample_salt) \<and>
   login_error (handleUnlock sample (reopened_big ''orange123'')) = []"
proof -
  let ?w = "reopened_big ''orange123''"
  have s: "storage ?w = storage big_vault"
    by (simp add: reopened_big_def handleLogout_storage big_vault_not_saved)
  have mp: "master_password ?w = ''orange123''" by (simp add: reopened_big_def)
  then have pw: "master_password ?w \<noteq> []" by simp
  have ls: "loadSalt sample ?w = Inr (Some sample_salt)"
    using sample_salt_text
    by (simp add: loadSalt_def s big_vault_fields sample_def charCodes_fromCharCode)
  let ?w3 = "(hideLoginError ?w)\<lparr>salt := Some sample_salt,
      cryptoKey := Some (deriveKey sample (master_password ?w) sample_salt)\<rparr>"
  have "loadVaultData sample ?w3 = (True, ?w3\<lparr>entries := JArr (map to_json [])\<rparr>)"
    by (simp add: loadVaultData_def loadVault_def s big_vault_fields page_defs)
  from handleUnlock_loaded [OF pw ls this] mp big_vault_fields big_vault_not_saved
  show ?thesis by simp
qed

section \<open>Wrong password\<close>

text \<open>
  C2, as the script has it. For every two passwords and every plaintext: when AES-GCM
  does not verify, under the key derived from the second password, what was sealed under
  the key derived from the first (same salt), then \<open>decrypt\<close> fails with the
  authentication failure and returns no plaintext; \<open>loadVaultData\<close> returns \<open>false\<close>
  without touching the entries; and \<open>handleUnlock\<close> shows ``Invalid password or corrupted
  vault.'', sets the key back to \<open>null\<close> and leaves the vault section as it was.
\<close>

theorem rejected_envelope_never_opens:
  assumes "base64_ok P"
    and ck: "cryptoKey w = Some (deriveKey P password s)"
    and sv: "fst (saveVaultData P w) = Inr ()"
    and st: "storage w2 STORAGE_KEY = storage (snd (saveVaultData P w)) STORAGE_KEY"
    and rej: "aes_gcm_decrypt P (deriveKey P password' s) (next_bytes w 12)
                (aes_gcm_encrypt P (deriveKey P password s) (next_bytes w 12)
                   (utf8_encode P (json_stringify P (entries w)))) = None"
  shows "(\<forall>data v envelope.
            fst (encrypt P (Some (deriveKey P password s)) data v) = Inr envelope \<and>
            aes_gcm_decrypt P (deriveKey P password' s) (next_bytes v 12)
              (aes_gcm_encrypt P (deriveKey P password s) (next_bytes v 12)
                 (utf8_encode P data)) = None \<longrightarrow>
            decrypt P (Some (deriveKey P password' s)) envelope = Inl OperationError) \<and>
         (cryptoKey w2 = Some (deriveKey P password' s) \<longrightarrow>
            fst (loadVaultData P w2) = False \<and>
            entries (snd (loadVaultData P w2)) = entries w2) \<and>
         (loadSalt P w2 = Inr (Some s) \<and> master_password w2 = password' \<and> password' \<noteq> [] \<longrightarrow>
            login_error (handleUnlock P w2) = ''Invalid password or corrupted vault.'' \<and>
            cryptoKey (handleUnlock P w2) = None \<and>
            entries (handleUnlock P w2) = entries w2 \<and>
            vault_section (handleUnlock P w2) = vault_section w2)"
proof -
  let ?k = "deriveKey P password s"
  let ?k' = "deriveKey P password' s"
  let ?env = "btoa P (fromCharCode
      (buffer_of P ?k (next_bytes w 12) (json_stringify P (entries w))))"
  have len: "length (next_bytes v 12) = 12" for v :: "'a world" by simp
  have st2: "storage w2 STORAGE_KEY = Some ?env"
    using st saveVaultData_saved [OF ck sv] by simp
  have ne: "?env \<noteq> []" using envelope_nonempty [OF assms(1) len] .
  have bad: "decrypt P (Some ?k') ?env = Inl OperationError"
    using rej by (simp add: decrypt_envelope [OF assms(1) len])
  have a: "decrypt P (Some ?k') envelope = Inl OperationError"
    if e: "fst (encrypt P (Some ?k) data v) = Inr envelope"
      and r: "aes_gcm_decrypt P ?k' (next_bytes v 12)
                (aes_gcm_encrypt P ?k (next_bytes v 12) (utf8_encode P data)) = None"
    for data envelope and v :: "'a world"
  proof (cases "accepted P (length (buffer_of P ?k (next_bytes v 12) data))")
    case True
    from e have "envelope = btoa P (fromCharCode (buffer_of P ?k (next_bytes v 12) data))"
      by (simp add: encrypt_accepted [OF True])
    with r show ?thesis by (simp add: decrypt_envelope [OF assms(1) len])
  next
    case False
    from e show ?thesis by (simp add: encrypt_refused [OF False])
  qed
  have b: "fst (loadVaultData P w2) = False \<and> entries (snd (loadVaultData P w2)) = entries w2"
    if "cryptoKey w2 = Some ?k'"
    using that st2 ne bad by (simp add: loadVaultData_def loadVault_def)
  have c: "login_error (handleUnlock P w2) = ''Invalid password or corrupted vault.'' \<and>
           cryptoKey (handleUnlock P w2) = None \<and>
           entries (handleUnlock P w2) = entries w2 \<and>
           vault_section (handleUnlock P w2) = vault_section w2"
    if h: "loadSalt P w2 = Inr (Some s)" "master_password w2 = password'" "password' \<noteq> []"
  proof -
    have pw: "master_password w2 \<noteq> []" using h(2,3) by simp
    have f: "decrypt P (Some (deriveKey P (master_password w2) s)) ?env = Inl OperationError \<or>
             (\<exists>t. decrypt P (Some (deriveKey P (master_password w2) s)) ?env = Inr t \<and>
                  json_parse P t = None)"
      using bad h(2) by simp
    from handleUnlock_failure [OF pw h(1) _ st2 ne f]
    show ?thesis by simp
  qed
  from a b c show ?thesis by blast
qed

theorem rejected_envelope_never_opens_witness:
  "base64_ok sample \<and>
   cryptoKey open_vault = Some (deriveKey sample ''orange123'' sample_salt) \<and>
   fst (saveVaultData sample open_vault) = Inr () \<and>
   aes_gcm_decrypt sample (deriveKey sample ''wrong'' sample_salt) (next_bytes open_vault 12)
     (aes_gcm_encrypt sample (deriveKey sample ''orange123'' sample_salt)
        (next_bytes open_vault 12)
        (utf8_encode sample (json_stringify sample (entries open_vault)))) = None \<and>
   login_error (handleUnlock sample (reopened ''wrong'')) =
     ''Invalid password or corrupted vault.'' \<and>
   cryptoKey (handleUnlock sample (reopened ''wrong'')) = None \<and>
   entries (handleUnlock sample (reopened ''wrong'')) = JArr [] \<and>
   vault_section (handleUnlock sample (reopened ''wrong'')) = Hidden"
proof -
  have kk: "deriveKey sample ''orange123'' sample_salt \<noteq> deriveKey sample ''wrong'' sample_salt"
    by (simp add: deriveKey_def encodeUTF8_def sample_def hmac_key_def charCodes_def)
  have rej: "aes_gcm_decrypt sample (deriveKey sample ''wrong'' sample_salt)
      (next_bytes open_vault 12)
      (aes_gcm_encrypt sample (deriveKey sample ''orange123'' sample_salt)
         (next_bytes open_vault 12)
         (utf8_encode sample (json_stringify sample (entries open_vault)))) = None"
    using key_unframe_other [OF kk] by (simp add: sample_def)
  have pw: "''wrong'' \<noteq> []" by simp
  from rejected_envelope_never_opens
    [OF sample_base64_ok open_vault_fields(2) open_vault_saved
        reopened_fields(1) [of "''wrong''"] rej]
    reopened_fields(2,3) [of "''wrong''"] pw
  have "login_error (handleUnlock sample (reopened ''wrong'')) =
          ''Invalid password or corrupted vault.'' \<and>
        cryptoKey (handleUnlock sample (reopened ''wrong'')) = None \<and>
        entries (handleUnlock sample (reopened ''wrong'')) = entries (reopened ''wrong'') \<and>
        vault_section (handleUnlock sample (reopened ''wrong'')) =
          vault_section (reopened ''wrong'')"
    by blast
  then show ?thesis
    using sample_base64_ok open_vault_fields(2) open_vault_saved rej
      reopened_fields(4,5) [of "''wrong''"]
    by simp
qed

text \<open>
  C2, as stated, fails: two different passwords can derive one key, and then the second
  opens what the first sealed. PBKDF2 keys its HMAC with the password, and HMAC fills a
  short key up with zero bytes, so \<open>orange123\<close> and \<open>orange123\<close> followed by the character
  with code 0 derive the same key: unlocking with the second shows the entries saved
  under the first, and no error.
\<close>

theorem padded_password_opens_counterexample:
  "padded_password \<noteq> ''orange123'' \<and>
   deriveKey sample padded_password sample_salt = deriveKey sample ''orange123'' sample_salt \<and>
   cryptoKey open_vault = Some (deriveKey sample ''orange123'' sample_salt) \<and>
   entries open_vault = sample_entries \<and>
   fst (saveVaultData sample open_vault) = Inr () \<and>
   master_password (reopened padded_password) = padded_password \<and>
   entries (handleUnlock sample (reopened padded_password)) = sample_entries \<and>
   cryptoKey (handleUnlock sample (reopened padded_password)) =
     Some (deriveKey sample ''orange123'' sample_salt) \<and>
   login_error (handleUnlock sample (reopened padded_password)) = []"
proof -
  let ?w = "reopened padded_password"
  let ?k = "deriveKey sample ''orange123'' sample_salt"
  have mp: "master_password ?w = padded_password" by (rule reopened_fields)
  have pw: "master_password ?w \<noteq> []" unfolding mp by (simp add: padded_password_def)
  have st: "storage ?w STORAGE_KEY = Some saved_envelope"
    by (simp add: reopened_fields(1) open_vault_envelope)
  have ne: "saved_envelope \<noteq> []"
    unfolding saved_envelope_def by (rule envelope_nonempty [OF sample_base64_ok]) simp
  let ?w3 = "(hideLoginError ?w)\<lparr>salt := Some sample_salt,
      cryptoKey := Some (deriveKey sample (master_password ?w) sample_salt)\<rparr>"
  have "loadVaultData sample ?w3 = (True, ?w3\<lparr>entries := sample_entries\<rparr>)"
    using st ne saved_envelope_opens sample_parse_entries
    by (simp add: loadVaultData_def loadVault_def mp padded_password_key(2) page_defs)
  from handleUnlock_loaded [OF pw reopened_fields(2) this [unfolded sample_entries_json]]
  have "entries (handleUnlock sample ?w) = sample_entries \<and>
        cryptoKey (handleUnlock sample ?w) = Some ?k \<and>
        login_error (handleUnlock sample ?w) = []"
    by (simp only: mp padded_password_key(2) sample_entries_json [symmetric])
  with mp padded_password_key open_vault_fields(1,2) open_vault_saved
  show ?thesis by simp
qed

section \<open>Adding an entry\<close>

text \<open>
  C3. An add request whose title or content is empty after trimming is rejected and
  changes nothing but the error text: \<open>handleAddEntry\<close>, which receives what the user
  typed, shows ``Both title and content are required.'' and returns; the entries, the
  store, the key and the entropy are as before.
\<close>

theorem empty_fields_rejected:
  "trim (entry_title w) = [] \<or> trim (entry_content w) = [] \<Longrightarrow>
   handleAddEntry P w = (Inr (), w\<lparr>entry_error := ''Both title and content are required.''\<rparr>)"
  by (auto simp add: handleAddEntry_def hideEntryError_def showEntryError_def)

theorem empty_fields_rejected_witness:
  "(trim (entry_title (start\<lparr>entry_title := ''   '', entry_content := ''x''\<rparr>)) = [] \<or>
    trim (entry_content (start\<lparr>entry_title := ''   '', entry_content := ''x''\<rparr>)) = []) \<and>
   handleAddEntry sample (start\<lparr>entry_title := ''   '', entry_content := ''x''\<rparr>) =
     (Inr (), start\<lparr>entry_title := ''   '', entry_content := ''x'',
                      entry_error := ''Both title and content are required.''\<rparr>)"
proof -
  have h: "trim (entry_title (start\<lparr>entry_title := ''   '', entry_content := ''x''\<rparr>)) = []"
    by (simp add: trim_def is_white_space_def)
  show ?thesis
    using h empty_fields_rejected [of "start\<lparr>entry_title := ''   '', entry_content := ''x''\<rparr>" sample]
    by simp
qed

text \<open>
  The guard inside \<open>addEntry\<close> itself tests its arguments without trimming them. Its only
  caller, \<open>handleAddEntry\<close>, passes trimmed strings, so the difference cannot be observed
  from the page; called directly with a blank title it would store an entry.
\<close>

lemma addEntry_guard_untrimmed:
  "entries (snd (addEntry sample ''  '' ''x'' (sealed_vault []))) =
     JArr [JObj [(''id'', JStr (uuid_text sample (map (entropy (sealed_vault []))
                     [drawn (sealed_vault []) ..< drawn (sealed_vault []) + 16]))),
                 (''title'', JStr []), (''content'', JStr ''x'')]]"
proof -
  have t: "''  '' \<noteq> []" and c: "''x'' \<noteq> []" by simp_all
  have en: "entries (sealed_vault []) = JArr []"
    and ck: "cryptoKey (sealed_vault []) = Some [7]"
    by (simp_all add: sealed_vault_def start_def)
  have tr: "trim ''  '' = []" "trim ''x'' = ''x''"
    by (simp_all add: trim_def is_white_space_def)
  from addEntry_unlocked(1) [OF t c en ck, where P = sample] show ?thesis
    by (simp add: tr)
qed

section \<open>Decoding\<close>

text \<open>
  C4, as the script has it. When the stored envelope opens to a text, \<open>loadVaultData\<close>
  fails exactly when \<open>JSON.parse\<close> throws on that text: the exception is caught and the
  result is \<open>false\<close>. Every text that parses is accepted and its value becomes
  \<open>vault.entries\<close>, whether or not it is an array of entries.
\<close>

theorem loadVaultData_takes_any_json:
  assumes "storage w STORAGE_KEY = Some env" and "env \<noteq> []"
    and "decrypt P (cryptoKey w) env = Inr text"
  shows "(json_parse P text = None \<longrightarrow>
            loadVaultData P w =
              (False, w\<lparr>console := console w @ [(''Failed to decrypt vault:'', SyntaxError)]\<rparr>)) \<and>
         (\<forall>v. json_parse P text = Some v \<longrightarrow> loadVaultData P w = (True, w\<lparr>entries := v\<rparr>))"
  using assms by (simp add: loadVaultData_def loadVault_def)

theorem loadVaultData_takes_any_json_witness:
  "storage (sealed_vault ''{'') STORAGE_KEY = Some (sealed_text ''{'') \<and>
   sealed_text ''{'' \<noteq> [] \<and>
   decrypt sample (cryptoKey (sealed_vault ''{'')) (sealed_text ''{'') = Inr ''{'' \<and>
   json_parse sample ''{'' = None \<and>
   loadVaultData sample (sealed_vault ''{'') =
     (False, (sealed_vault ''{'')\<lparr>console := [(''Failed to decrypt vault:'', SyntaxError)]\<rparr>)"
proof -
  have st: "storage (sealed_vault ''{'') STORAGE_KEY = Some (sealed_text ''{'')"
    by (rule sealed_vault_fields)
  have de: "decrypt sample (cryptoKey (sealed_vault ''{'')) (sealed_text ''{'') = Inr ''{''"
    by (simp add: sealed_vault_fields sealed_decrypt)
  have jp: "json_parse sample ''{'' = None"
    by (simp add: sample_def sample_parse_def sample_entries_def to_json_def)
  have co: "console (sealed_vault ''{'') = []"
    by (simp add: sealed_vault_def start_def)
  from loadVaultData_takes_any_json [OF st sealed_text_nonempty de] st sealed_text_nonempty de jp co
  show ?thesis by simp
qed

text \<open>
  C4, as stated, fails: the payload \<open>null\<close> is not an entry collection, yet decoding
  succeeds and \<open>vault.entries\<close> becomes \<open>null\<close>.
\<close>

theorem decode_accepts_null_counterexample:
  "storage (sealed_vault ''null'') STORAGE_KEY = Some (sealed_text ''null'') \<and>
   decrypt sample (cryptoKey (sealed_vault ''null'')) (sealed_text ''null'') = Inr ''null'' \<and>
   json_parse sample ''null'' = Some JNull \<and>
   loadVaultData sample (sealed_vault ''null'') = (True, (sealed_vault ''null'')\<lparr>entries := JNull\<rparr>)"
proof -
  have jp: "json_parse sample ''null'' = Some JNull"
    by (simp add: sample_def sample_parse_def sample_entries_def to_json_def)
  have "loadVaultData sample (sealed_vault ''null'') =
      (True, (sealed_vault ''null'')\<lparr>entries := JNull\<rparr>)"
    using jp
    by (simp add: loadVaultData_def loadVault_def sealed_vault_fields sealed_text_nonempty
        sealed_decrypt)
  with jp show ?thesis by (simp add: sealed_vault_fields sealed_decrypt)
qed

section \<open>Failed unlock\<close>

text \<open>
  C5, as the script has it. When \<open>decrypt\<close> or \<open>JSON.parse\<close> throws on the stored envelope
  during \<open>handleUnlock\<close>, the session is locked again: the key is \<open>null\<close>, the entries and
  the stored envelope are untouched, the page stays on the login section, and the one
  message shown is ``Invalid password or corrupted vault.'', the same whether \<open>decrypt\<close>
  rejected (wrong password, damaged envelope) or \<open>JSON.parse\<close> did.
\<close>

theorem unlock_failure_locks_again:
  assumes "master_password w \<noteq> []"
    and "loadSalt P w = Inr loaded"
    and "s = (case loaded of Some stored \<Rightarrow> stored
              | None \<Rightarrow> map (entropy w) [drawn w ..< drawn w + 16])"
    and "storage w STORAGE_KEY = Some env" and "env \<noteq> []"
    and "decrypt P (Some (deriveKey P (master_password w) s)) env = Inl e \<or>
         (\<exists>t. decrypt P (Some (deriveKey P (master_password w) s)) env = Inr t \<and>
              json_parse P t = None)"
  shows "cryptoKey (handleUnlock P w) = None \<and>
         login_error (handleUnlock P w) = ''Invalid password or corrupted vault.'' \<and>
         entries (handleUnlock P w) = entries w \<and>
         storage (handleUnlock P w) STORAGE_KEY = Some env \<and>
         login_section (handleUnlock P w) = login_section w \<and>
         vault_section (handleUnlock P w) = vault_section w"
  using assms by (rule handleUnlock_failure)

theorem unlock_failure_locks_again_witness:
  "master_password garbled_vault \<noteq> [] \<and>
   loadSalt sample garbled_vault = Inr (Some sample_salt) \<and>
   storage garbled_vault STORAGE_KEY = Some ''garbage'' \<and>
   decrypt sample (Some (deriveKey sample ''orange123'' sample_salt)) ''garbage'' =
     Inl OperationError \<and>
   cryptoKey (handleUnlock sample garbled_vault) = None \<and>
   login_error (handleUnlock sample garbled_vault) = ''Invalid password or corrupted vault.'' \<and>
   entries (handleUnlock sample garbled_vault) = JArr [] \<and>
   login_section (handleUnlock sample garbled_vault) = Visible \<and>
   vault_section (handleUnlock sample garbled_vault) = Hidden"
proof -
  have pw: "master_password garbled_vault \<noteq> []"
    and mp: "master_password garbled_vault = ''orange123''"
    and st: "storage garbled_vault STORAGE_KEY = Some ''garbage''"
    by (simp_all add: garbled_vault_def start_def SALT_KEY_def STORAGE_KEY_def)
  have s: "sample_salt = (case Some sample_salt of Some stored \<Rightarrow> stored
             | None \<Rightarrow> map (entropy garbled_vault) [drawn garbled_vault ..< drawn garbled_vault + 16])"
    by simp
  have ne: "''garbage'' \<noteq> []" by simp
  have f: "decrypt sample (Some (deriveKey sample (master_password garbled_vault) sample_salt))
             ''garbage'' = Inl OperationError \<or>
           (\<exists>t. decrypt sample (Some (deriveKey sample (master_password garbled_vault) sample_salt))
                  ''garbage'' = Inr t \<and> json_parse sample t = None)"
    using garbled_decrypt by (simp add: mp)
  from unlock_failure_locks_again [OF pw garbled_loadSalt s st ne f] pw garbled_loadSalt st
    garbled_decrypt
  show ?thesis by (simp add: garbled_vault_def start_def)
qed

text \<open>
  C5, as stated, fails for a payload that opens and parses but is not a collection of
  entries. On a store whose envelope holds the text \<open>null\<close>, \<open>handleUnlock\<close> with the right
  password takes \<open>null\<close> for the entries and shows the vault section; \<open>renderEntries\<close>
  then throws, the outer \<open>catch\<close> reports ``An error occurred during unlock.'', and the key
  stays in place.
\<close>

theorem unlock_on_null_payload_counterexample:
  "storage null_store STORAGE_KEY = Some null_envelope \<and>
   master_password null_store = ''orange123'' \<and>
   decrypt sample (Some (deriveKey sample ''orange123'' sample_salt)) null_envelope =
     Inr ''null'' \<and>
   json_parse sample ''null'' = Some JNull \<and>
   entries (handleUnlock sample null_store) = JNull \<and>
   cryptoKey (handleUnlock sample null_store) =
     Some (deriveKey sample ''orange123'' sample_salt) \<and>
   login_error (handleUnlock sample null_store) = ''An error occurred during unlock.'' \<and>
   login_section (handleUnlock sample null_store) = Hidden \<and>
   vault_section (handleUnlock sample null_store) = Visible"
proof -
  have mp: "master_password null_store = ''orange123''"
    and st: "storage null_store STORAGE_KEY = Some null_envelope"
    by (simp_all add: null_store_def start_def SALT_KEY_def STORAGE_KEY_def)
  have pw: "master_password null_store \<noteq> []" by (simp add: mp)
  have ls: "loadSalt sample null_store = Inr (Some sample_salt)"
    using sample_salt_text
    by (simp add: loadSalt_def null_store_def start_def SALT_KEY_def STORAGE_KEY_def
        sample_def charCodes_fromCharCode)
  let ?w3 = "(hideLoginError null_store)
      \<lparr>salt := Some sample_salt,
        cryptoKey := Some (deriveKey sample ''orange123'' sample_salt)\<rparr>"
  have jp: "json_parse sample ''null'' = Some JNull"
    by (simp add: sample_def sample_parse_def sample_entries_def to_json_def)
  have ne: "null_envelope \<noteq> []"
    by (simp add: null_envelope_def fromCharCode_def)
  have lv: "loadVaultData sample ?w3 = (True, ?w3\<lparr>entries := JNull\<rparr>)"
    using jp null_store_decrypt ne st
    by (simp add: loadVaultData_def loadVault_def page_defs)
  have "handleUnlock sample null_store =
      showLoginError ''An error occurred during unlock.''
        ((showVaultSection (?w3\<lparr>entries := JNull, master_password := []\<rparr>))
           \<lparr>entries_list := Children [],
             console := console null_store @ [(''Unlock error:'', TypeError)]\<rparr>)"
    unfolding handleUnlock_after_salt [OF pw ls]
    using lv mp
    by (simp add: Let_def renderEntries_def hideLoginError_def showLoginError_def
        showVaultSection_def)
  then show ?thesis
    using mp st jp null_store_decrypt
    by (simp add: page_defs) (simp add: null_store_def start_def)
qed

section \<open>The salt\<close>

text \<open>
  C6. The stored salt is written once. A stored salt survives every sequence of actions
  unchanged; no action other than unlocking writes the salt at all; and unlocking with
  a password when no salt is stored writes base64 of 16 fresh random bytes, which then
  survive every further sequence of actions.
\<close>

theorem salt_written_once:
  "(storage w SALT_KEY = Some stored \<and> stored \<noteq> [] \<longrightarrow>
      storage (run P as w) SALT_KEY = Some stored) \<and>
   ((\<forall>password. a \<noteq> Unlock password) \<longrightarrow>
      storage (perform P a w) SALT_KEY = storage w SALT_KEY) \<and>
   (storage w SALT_KEY = None \<and> password \<noteq> [] \<and> base64_ok P \<longrightarrow>
      storage (perform P (Unlock password) w) SALT_KEY =
        Some (btoa P (fromCharCode (map (entropy w) [drawn w ..< drawn w + 16]))) \<and>
      storage (run P as (perform P (Unlock password) w)) SALT_KEY =
        Some (btoa P (fromCharCode (map (entropy w) [drawn w ..< drawn w + 16]))))"
proof -
  let ?fresh = "btoa P (fromCharCode (map (entropy w) [drawn w ..< drawn w + 16]))"
  have a: "storage (run P as w) SALT_KEY = Some stored"
    if "storage w SALT_KEY = Some stored" "stored \<noteq> []"
    using run_keeps_salt [OF that] .
  have b: "storage (perform P a w) SALT_KEY = storage w SALT_KEY"
    if "\<forall>password. a \<noteq> Unlock password"
    using that
    by (cases a) (simp_all add: handleLogout_storage handleAddEntry_salt deleteEntry_salt)
  have c: "storage (perform P (Unlock password) w) SALT_KEY = Some ?fresh \<and>
           storage (run P as (perform P (Unlock password) w)) SALT_KEY = Some ?fresh"
    if h: "storage w SALT_KEY = None" "password \<noteq> []" "base64_ok P"
  proof -
    have "loadSalt P (w\<lparr>master_password := password\<rparr>) = Inr None"
      using h(1) by (simp add: loadSalt_def)
    with h(2) have w: "storage (perform P (Unlock password) w) SALT_KEY = Some ?fresh"
      by (simp add: handleUnlock_storage)
    have "fromCharCode (map (entropy w) [drawn w ..< drawn w + 16]) \<noteq> []"
      by (simp add: fromCharCode_def)
    from btoa_nonempty [OF h(3) this] have "?fresh \<noteq> []" .
    from run_keeps_salt [OF w this] w show ?thesis by simp
  qed
  from a b c show ?thesis by blast
qed

theorem salt_written_once_witness:
  "storage start SALT_KEY = None \<and> ''orange123'' \<noteq> [] \<and> base64_ok sample \<and>
   storage (run sample [AddEntry ''Note'' ''secret'', Logout, Unlock ''wrong'', DeleteEntry ''1'']
              (perform sample (Unlock ''orange123'') start)) SALT_KEY =
     Some (btoa sample (fromCharCode (map (entropy start) [drawn start ..< drawn start + 16]))) \<and>
   storage open_vault SALT_KEY = Some (fromCharCode sample_salt) \<and>
   fromCharCode sample_salt \<noteq> [] \<and>
   storage (run sample [Logout, Unlock ''other'', AddEntry ''a'' ''b''] open_vault) SALT_KEY =
     Some (fromCharCode sample_salt)"
proof -
  have n: "storage start SALT_KEY = None" by (simp add: start_def)
  have pw: "''orange123'' \<noteq> []" by simp
  from salt_written_once [where w = start and P = sample and password = "''orange123''" and
      as = "[AddEntry ''Note'' ''secret'', Logout, Unlock ''wrong'', DeleteEntry ''1'']"]
    salt_written_once [where w = open_vault and stored = "fromCharCode sample_salt" and
      P = sample and as = "[Logout, Unlock ''other'', AddEntry ''a'' ''b'']"]
    n pw sample_base64_ok open_vault_fields(3) sample_salt_text
  show ?thesis by simp
qed

section \<open>Empty password\<close>

text \<open>
  C7. With an empty password \<open>handleUnlock\<close> only shows ``Please enter your master
  password.'': no salt is generated or stored, no key is derived, and the vault is
  unchanged.
\<close>

theorem empty_password_rejected:
  "master_password w = [] \<Longrightarrow>
   handleUnlock P w = w\<lparr>login_error := ''Please enter your master password.''\<rparr>"
  by (simp add: handleUnlock_def hideLoginError_def showLoginError_def)

theorem empty_password_rejected_witness:
  "master_password start = [] \<and>
   storage (handleUnlock sample start) SALT_KEY = None \<and>
   cryptoKey (handleUnlock sample start) = None \<and>
   drawn (handleUnlock sample start) = 0 \<and>
   login_error (handleUnlock sample start) = ''Please enter your master password.''"
  using empty_password_rejected [of start sample] by (simp add: start_def)

section \<open>Deleting an entry\<close>

text \<open>
  C8. Deleting does not always persist what remains. After a small entry was saved and
  an entry with a content of 200000 characters was added, the session holds both and the
  store holds the envelope of the small entry alone. \<open>deleteEntry\<close> of the small entry
  removes it from \<open>vault.entries\<close>, but the spread of the sealed buffer in \<open>encrypt\<close> has
  more arguments than the engine accepts: \<open>saveVaultData\<close> ends with a RangeError, and
  the store keeps the previous envelope, which still opens to the deleted entry. (As long
  as the spread is accepted, \<open>deleteEntry\<close> stores the seal of exactly the remaining
  list: \<open>deleteEntry_unlocked\<close>.)
\<close>

theorem delete_in_large_vault_is_not_saved:
  "crowded_vault = snd (addEntry sample ''Big'' big_content saved_vault) \<and>
   entries crowded_vault =
     JArr (map to_json [\<lparr>eid = ''1'', etitle = ''Note'', econtent = ''secret''\<rparr>, added_entry]) \<and>
   cryptoKey crowded_vault = Some (deriveKey sample ''orange123'' sample_salt) \<and>
   storage crowded_vault STORAGE_KEY = Some saved_envelope \<and>
   fst (deleteEntry sample ''1'' crowded_vault) = Inl RangeError \<and>
   entries (snd (deleteEntry sample ''1'' crowded_vault)) = JArr [to_json added_entry] \<and>
   storage (snd (deleteEntry sample ''1'' crowded_vault)) STORAGE_KEY = Some saved_envelope \<and>
   decrypt sample (Some (deriveKey sample ''orange123'' sample_salt)) saved_envelope =
     Inr (json_stringify sample
            (JArr [to_json \<lparr>eid = ''1'', etitle = ''Note'', econtent = ''secret''\<rparr>]))"
proof -
  let ?k = "deriveKey sample ''orange123'' sample_salt"
  let ?E = "[\<lparr>eid = ''1'', etitle = ''Note'', econtent = ''secret''\<rparr>, added_entry]"
  note en = crowded_vault_fields(1) and ck = crowded_vault_fields(2)
    and st = crowded_vault_fields(3)
  have kept: "filter (\<lambda>e. eid e \<noteq> ''1'') ?E = [added_entry]"
    using added_entry_id by simp
  have "\<not> accepted sample (length (buffer_of sample ?k (next_bytes crowded_vault 12)
      (json_stringify sample (JArr [to_json added_entry]))))"
    using long_text_refused [OF added_text_length(1), where k = ?k and
        iv = "next_bytes crowded_vault 12"]
    by (simp add: sample_def)
  then have no: "\<not> accepted sample (length (buffer_of sample ?k (next_bytes crowded_vault 12)
      (json_stringify sample (JArr (map to_json (filter (\<lambda>e. eid e \<noteq> ''1'') ?E))))))"
    by (simp only: kept) simp
  from deleteEntry_unlocked(1) [OF en ck, where P = sample and i = "''1''"]
    deleteEntry_unlocked(3) [OF en ck no]
  have "fst (deleteEntry sample ''1'' crowded_vault) = Inl RangeError \<and>
        entries (snd (deleteEntry sample ''1'' crowded_vault)) = JArr [to_json added_entry] \<and>
        storage (snd (deleteEntry sample ''1'' crowded_vault)) = storage crowded_vault"
    by (simp only: kept) simp
  then show ?thesis
    using en ck st saved_envelope_opens
    by (simp add: sample_entries_def crowded_vault_def)
qed

section \<open>Locking\<close>

text \<open>
  C9. Logging out sets the key to \<open>null\<close> and the entries to the empty array, and writes
  nothing: \<open>localStorage\<close>, and with it the stored envelope and the stored salt, is what it
  was before.
\<close>

theorem logout_discards_and_keeps_storage:
  "cryptoKey (handleLogout w) = None \<and>
   entries (handleLogout w) = JArr [] \<and>
   storage (handleLogout w) = storage w \<and>
   storage (handleLogout w) STORAGE_KEY = storage w STORAGE_KEY \<and>
   storage (handleLogout w) SALT_KEY = storage w SALT_KEY"
  by (simp add: handleLogout_def showLoginSection_def hideLoginError_def hideEntryError_def
      showLoginError_def showEntryError_def)

section \<open>Trimmed fields\<close>

text \<open>
  C10. An entry that \<open>addEntry\<close> appends has the trimmed title and the trimmed content:
  neither starts nor ends with white space. The envelope stored afterwards is the seal
  of the list that ends with this entry, as long as the engine accepts the spread of the
  sealed buffer; otherwise the store is left as it was.
\<close>

theorem addEntry_stores_trimmed:
  assumes "title \<noteq> []" and "content \<noteq> []"
    and "entries w = JArr xs" and "cryptoKey w = Some k"
  shows "let new = JObj [(''id'', JStr (uuid_text P (map (entropy w) [drawn w ..< drawn w + 16]))),
                         (''title'', JStr (trim title)),
                         (''content'', JStr (trim content))];
             iv = map (entropy w) [drawn w + 16 ..< drawn w + 16 + 12];
             buffer = iv @ aes_gcm_encrypt P k iv
                             (utf8_encode P (json_stringify P (JArr (xs @ [new]))));
             w' = snd (addEntry P title content w)
         in entries w' = JArr (xs @ [new]) \<and>
            trimmed (trim title) \<and> trimmed (trim content) \<and>
            (length buffer \<le> 16 \<or> length buffer \<le> argument_limit P \<longrightarrow>
               storage w' STORAGE_KEY = Some (btoa P (fromCharCode buffer))) \<and>
            (\<not> (length buffer \<le> 16 \<or> length buffer \<le> argument_limit P) \<longrightarrow>
               storage w' = storage w)"
  using addEntry_unlocked [OF assms, of P]
  by (simp add: Let_def trimmed_trim)

theorem addEntry_stores_trimmed_witness:
  "'' Note'' \<noteq> [] \<and> ''secret  '' \<noteq> [] \<and>
   entries (sealed_vault []) = JArr [] \<and> cryptoKey (sealed_vault []) = Some [7] \<and>
   entries (snd (addEntry sample '' Note'' ''secret  '' (sealed_vault []))) =
     JArr [JObj [(''id'', JStr (uuid_text sample (map (entropy (sealed_vault []))
                     [drawn (sealed_vault []) ..< drawn (sealed_vault []) + 16]))),
                 (''title'', JStr ''Note''), (''content'', JStr ''secret'')]] \<and>
   trimmed ''Note'' \<and> trimmed ''secret''"
proof -
  have t: "'' Note'' \<noteq> []" and c: "''secret  '' \<noteq> []" by simp_all
  have en: "entries (sealed_vault []) = JArr []"
    by (simp add: sealed_vault_def start_def)
  have tr: "trim '' Note'' = ''Note''" "trim ''secret  '' = ''secret''"
    by (simp_all add: trim_def is_white_space_def)
  from addEntry_stores_trimmed [OF t c en sealed_vault_fields(2), where P = sample] en
    sealed_vault_fields(2) [of "[]"]
  show ?thesis by (simp add: Let_def tr)
qed

end
